theory Spec2Isabelle
  imports Complex_Main
begin

section \<open>The EAGLE speculative decoding worker (speculative/eagle_worker.py)\<close>

text \<open>
  The worker is embedded function by function. Python integers are \<open>int\<close>; \<open>//\<close> and
  \<open>%\<close> are the flooring \<open>div\<close> and \<open>mod\<close>. The entries of integer tensors (sequence
  lengths, slot ids, token ids) are 64-bit: they are held as \<open>int\<close>, and every operator
  that computes a new entry reduces the result to the signed 64-bit range (\<open>wrap64\<close>).
  An exception is a value \<open>Inl e\<close>; a call that raises ends the function it is made from.
  Functions that eagle_worker.py imports from other files of the repository (the
  allocator, the Triton kernels, the model runners, the methods of the draft and verify
  inputs) are fields of the record \<open>env\<close>: every theorem holds for whatever these
  functions compute.
\<close>

subsection \<open>Errors\<close>

datatype error =
  ValueError | AssertionError | RuntimeError | UnboundLocalError | ZeroDivisionError
| KeyError | IndexError

definition bindE :: "error + 'a \<Rightarrow> ('a \<Rightarrow> error + 'b) \<Rightarrow> error + 'b" where
  "bindE m f = (case m of Inl e \<Rightarrow> Inl e | Inr x \<Rightarrow> f x)"

definition py_assert :: "bool \<Rightarrow> error + unit" where
  "py_assert c = (if c then Inr () else Inl AssertionError)"

subsection \<open>Tensors\<close>

text \<open>
  A floating-point entry is either NaN or a number; \<open>torch.isnan\<close> tells them apart.
  Arithmetic on such entries (division by a temperature, softmax) is PyTorch's and enters
  the model as a parameter where it is used.
\<close>

datatype fp = NaN | Num real

fun isnan :: "fp \<Rightarrow> bool" where
  "isnan NaN = True"
| "isnan (Num x) = False"

text \<open>
  Indexing a one-dimensional tensor or a list with one integer: negative indices count
  from the end, anything outside \<open>[-n, n)\<close> raises.
\<close>

definition py_index :: "'a list \<Rightarrow> int \<Rightarrow> error + 'a" where
  "py_index xs i =
     (if 0 \<le> i \<and> i < int (length xs) then Inr (xs ! nat i)
      else if i < 0 \<and> - int (length xs) \<le> i then Inr (xs ! nat (int (length xs) + i))
      else Inl IndexError)"

text \<open>Running a function that can raise over a list, left to right.\<close>

fun mapE :: "('a \<Rightarrow> error + 'b) \<Rightarrow> 'a list \<Rightarrow> error + 'b list" where
  "mapE f [] = Inr []"
| "mapE f (x # xs) = bindE (f x) (\<lambda>y. bindE (mapE f xs) (\<lambda>ys. Inr (y # ys)))"

text \<open>\<open>xs[idx]\<close> for an index tensor \<open>idx\<close>: one lookup per entry of \<open>idx\<close>.\<close>

definition index_select :: "'a list \<Rightarrow> int list \<Rightarrow> error + 'a list" where
  "index_select xs idx = mapE (py_index xs) idx"

text \<open>
  \<open>t.view(shape)\<close> of a flat tensor as rows of the given lengths; the sizes must agree.
\<close>

fun chop :: "nat list \<Rightarrow> 'a list \<Rightarrow> 'a list list" where
  "chop [] xs = []"
| "chop (n # ns) xs = take n xs # chop ns (drop n xs)"

definition view_rows :: "'a list \<Rightarrow> nat list \<Rightarrow> error + 'a list list" where
  "view_rows xs ns = (if length xs = sum_list ns then Inr (chop ns xs) else Inl RuntimeError)"

text \<open>\<open>xs[:n]\<close>: a negative \<open>n\<close> counts from the end.\<close>

definition py_slice_to :: "int \<Rightarrow> 'a list \<Rightarrow> 'a list" where
  "py_slice_to n xs = (if 0 \<le> n then take (nat n) xs else take (nat (int (length xs) + n)) xs)"

text \<open>\<open>t.repeat_interleave(k, dim=0)\<close> on a one-dimensional tensor.\<close>

definition repeat_interleave :: "int \<Rightarrow> 'a list \<Rightarrow> error + 'a list" where
  "repeat_interleave k xs =
     (if k < 0 then Inl RuntimeError else Inr (concat (map (replicate (nat k)) xs)))"

text \<open>
  The integer tensors that the batch shares with the code around it live in a store of
  tensor objects: a field of the batch holds a reference, an in-place operation changes
  the contents of the cell, and an assignment to the field changes the reference.
\<close>

type_synonym ref = nat

record heap =
  cells :: "ref \<Rightarrow> int list"
  next_ref :: ref

definition rd :: "heap \<Rightarrow> ref \<Rightarrow> int list" where
  "rd h r = cells h r"

definition new_tensor :: "int list \<Rightarrow> heap \<Rightarrow> ref \<times> heap" where
  "new_tensor xs h =
     (next_ref h, h\<lparr>cells := (cells h)(next_ref h := xs), next_ref := Suc (next_ref h)\<rparr>)"

subsection \<open>64-bit tensor entries\<close>

text \<open>
  The result of an operator on \<open>int64\<close> tensors is the mathematical result modulo
  \<open>2^64\<close>, read as a signed number. A Python integer that meets a tensor in an operator
  is first converted to a 64-bit scalar, and the conversion raises a \<open>RuntimeError\<close>
  when the integer is outside the signed 64-bit range. An integer division or remainder
  of a non-empty tensor by zero raises a \<open>RuntimeError\<close> as well.
\<close>

definition wrap64 :: "int \<Rightarrow> int" where
  "wrap64 x = (x + 2 ^ 63) mod 2 ^ 64 - 2 ^ 63"

definition fits64 :: "int \<Rightarrow> bool" where
  "fits64 x = (- (2 ^ 63) \<le> x \<and> x < 2 ^ 63)"

text \<open>\<open>torch.sum(t).item()\<close> of an \<open>int64\<close> tensor.\<close>

definition tensor_sum :: "int list \<Rightarrow> int" where
  "tensor_sum t = wrap64 (sum_list t)"

subsection \<open>The draft cache layout (get_last_loc_large_page_size_*)\<close>

text \<open>
  \<open>get_last_loc\<close> of schedule_batch.py is a parameter \<open>gll\<close>. The tensor operators work
  entry by entry; a tensor and a Python integer broadcast. In
  \<open>last_page_lens + speculative_num_steps + page_size - 1\<close> the three operators are
  applied from left to right, and \<open>page_size * topk\<close> is a product of Python integers.
\<close>

type_synonym get_last_loc_fn = "int list list \<Rightarrow> int list \<Rightarrow> int list \<Rightarrow> int list"

definition get_last_loc_large_page_size_top_k_1 ::
  "get_last_loc_fn \<Rightarrow> int list list \<Rightarrow> int list \<Rightarrow> int list \<Rightarrow> int
     \<Rightarrow> error + (int list \<times> int list \<times> int list)" where
  "get_last_loc_large_page_size_top_k_1 gll req_to_token_t req_pool_indices_t seq_lens_t
       speculative_num_steps_a =
     (if \<not> fits64 speculative_num_steps_a then Inl RuntimeError
      else
        let prefix_lens = seq_lens_t;
            seq_lens' = map (\<lambda>p. wrap64 (p + speculative_num_steps_a)) prefix_lens;
            last_loc = gll req_to_token_t req_pool_indices_t prefix_lens
        in Inr (prefix_lens, seq_lens', last_loc))"

definition get_last_loc_large_page_size_large_top_k ::
  "get_last_loc_fn \<Rightarrow> int list list \<Rightarrow> int list \<Rightarrow> int list \<Rightarrow> int \<Rightarrow> int \<Rightarrow> int
     \<Rightarrow> error + (int list \<times> int list \<times> int list \<times> int list \<times> int list)" where
  "get_last_loc_large_page_size_large_top_k gll req_to_token_t req_pool_indices_t seq_lens_t
       speculative_num_steps_a topk_a page_size_a =
     (if \<not> fits64 page_size_a \<or> \<not> fits64 speculative_num_steps_a
         \<or> \<not> fits64 (page_size_a * topk_a)
      then Inl RuntimeError
      else if page_size_a = 0 \<and> seq_lens_t \<noteq> [] then Inl RuntimeError
      else
        let prefix_lens = seq_lens_t;
            last_page_lens = map (\<lambda>p. wrap64 (p mod page_size_a)) prefix_lens;
            num_new_pages_per_topk =
              map (\<lambda>l. wrap64
                          (wrap64 (wrap64 (wrap64 (l + speculative_num_steps_a) + page_size_a) - 1)
                             div page_size_a))
                last_page_lens;
            seq_lens' =
              map2 (\<lambda>p n. wrap64 (wrap64 (wrap64 (p div page_size_a) * page_size_a)
                                     + wrap64 (n * (page_size_a * topk_a))))
                prefix_lens num_new_pages_per_topk;
            extend_lens = map2 (\<lambda>s p. wrap64 (s - p)) seq_lens' prefix_lens;
            last_loc = gll req_to_token_t req_pool_indices_t prefix_lens
        in Inr (prefix_lens, seq_lens', last_loc, num_new_pages_per_topk, extend_lens))"

subsection \<open>The worker, the batch and its objects\<close>

text \<open>
  The attributes of \<open>EAGLEWorker\<close> that are fixed when the constructor has parsed its
  arguments (\<open>attention_backend\<close> is read through \<open>self.server_args\<close>).
\<close>

record worker =
  topk :: int
  speculative_num_steps :: int
  speculative_num_draft_tokens :: int
  page_size :: int
  enable_nan_detection :: bool
  enable_dp_attention :: bool
  hot_token_id :: "int list option"
  is_eagle3 :: bool
  hidden_size :: int
  attention_backend :: string

datatype forward_mode = EXTEND | MIXED | DECODE | IDLE | TARGET_VERIFY | DRAFT_EXTEND

text \<open>
  Modelled from the spec: \<open>ForwardMode.is_idle()\<close> of forward_batch_info.py, which is
  absent from the sources. The spec knows one idle mode, \<open>IDLE\<close>, the mode of a batch
  that holds no request. (\<open>is_extend()\<close> is a parameter, \<open>e_is_extend\<close> below.)
\<close>

definition is_idle :: "forward_mode \<Rightarrow> bool" where
  "is_idle m = (m = IDLE)"

datatype capture_hidden_mode = CHM_NULL | CHM_LAST | CHM_FULL

datatype spec_class = EagleDraftInput | EagleVerifyInput

text \<open>
  \<open>batch.spec_info\<close> is an \<open>EagleDraftInput\<close> or an \<open>EagleVerifyInput\<close>, by turns.
  Python objects take any attribute, so one record carries the class and the attributes
  that eagle_worker.py reads or writes on either. \<open>accept_length\<close> is \<open>None\<close> or a
  reference to a tensor object.
\<close>

record spec_info =
  si_class :: spec_class
  si_hidden_states :: "fp list list"
  verified_id :: "int list"
  topk_p :: "fp list list"
  topk_index :: "int list list"
  positions :: "int list"
  accept_length :: "ref option"
  capture_hidden_mode :: capture_hidden_mode
  num_tokens_per_batch :: int
  num_tokens_for_logprob_per_batch :: int
  draft_token :: "int list"
  retrive_next_token :: "int list list"
  retrive_next_sibling :: "int list list"
  grammar_present :: bool
  si_seq_lens_cpu :: "int list option"
  draft_token_num :: int

record logits_processor_output =
  next_token_logits :: "fp list list"
  lo_hidden_states :: "fp list list"
  lo_topk_p :: "fp list list"
  lo_topk_index :: "int list list"
  next_token_logprobs :: "fp list"
  next_token_top_logprobs_val :: "fp list list"
  next_token_top_logprobs_idx :: "int list list"
  next_token_token_ids_logprobs_val :: "fp list list"
  next_token_token_ids_logprobs_idx :: "int list list"

record req =
  req_return_logprob :: bool
  top_logprobs_num :: int
  output_token_logprobs_val :: "fp list"
  output_token_logprobs_idx :: "int list"
  output_top_logprobs_val :: "fp list list"
  output_top_logprobs_idx :: "int list list"

text \<open>
  \<open>ScheduleBatch\<close>. The fields of \<open>batch.sampling_info\<close> that the worker touches
  (\<open>vocab_mask\<close>, \<open>vocab_size\<close>, \<open>temperatures\<close>, \<open>penalizer_orchestrator.is_required\<close>)
  are fields of the batch here. \<open>seq_lens\<close> and \<open>req_pool_indices\<close> are references.
\<close>

record schedule_batch =
  reqs :: "req list"
  forward_mode :: forward_mode
  is_extend_in_batch :: bool
  seq_lens :: ref
  req_pool_indices :: ref
  out_cache_loc :: "int list"
  seq_lens_sum :: int
  return_hidden_states :: bool
  return_logprob :: bool
  has_grammar :: bool
  spec_info :: spec_info
  vocab_mask :: "int list list option"
  vocab_size :: int
  temperatures :: "fp list"
  penalizer_is_required :: bool
  top_logprobs_nums :: "int list"
  token_ids_logprobs :: "int list option list"

definition batch_size :: "schedule_batch \<Rightarrow> int" where
  "batch_size b = int (length (reqs b))"

record model_worker_batch =
  bid :: int
  mwb_capture_hidden_mode :: capture_hidden_mode
  mwb_seq_lens_cpu :: "int list option"

record forward_batch =
  fb_forward_mode :: forward_mode
  fb_batch_size :: int
  fb_input_ids :: "int list"
  fb_out_cache_loc :: "int list"
  fb_positions :: "int list"
  fb_attn_backend :: int
  fb_seq_lens_sum :: int
  fb_seq_lens_cpu :: "int list option"
  fb_can_run_dp_cuda_graph :: bool
  fb_return_logprob :: bool

record eagle_verify_output =
  vo_draft_input :: spec_info
  vo_logits_output :: nat
  vo_verified_id :: "int list"
  accept_length_per_req_cpu :: "int list"
  accepted_indices :: "int list"

text \<open>Calls of the KV allocator, in the order they are made.\<close>

datatype kv_call =
  AllocTokenSlots int bool
| AllocPagedTokenSlotsExtend "int list" "int list" "int list" int bool
| RestoreState

text \<open>
  Everything a method of the worker can read or change: the batch it was handed, the
  store of tensor objects, the store of \<open>LogitsProcessorOutput\<close> objects, the state of the
  KV allocator shared with the target worker (of an arbitrary type \<open>'k\<close>), the
  request-to-token table, the two tensors \<open>self.extend_lens\<close> and
  \<open>self.num_new_pages_per_topk\<close> of the worker, the allocator calls made so far and the
  token tensors handed to the penalizer so far.
\<close>

record 'k world =
  batch :: schedule_batch
  heap :: heap
  logits_objs :: "nat \<Rightarrow> logits_processor_output"
  kv :: 'k
  req_to_token :: "int list list"
  self_extend_lens :: "int list"
  self_num_new_pages_per_topk :: "int list"
  kv_calls :: "kv_call list"
  cumulated_output_tokens :: "int list list"


definition upd_batch :: "(schedule_batch \<Rightarrow> schedule_batch) \<Rightarrow> 'k world \<Rightarrow> 'k world" where
  "upd_batch f st = st\<lparr>batch := f (batch st)\<rparr>"

definition upd_spec :: "(spec_info \<Rightarrow> spec_info) \<Rightarrow> 'k world \<Rightarrow> 'k world" where
  "upd_spec f st = st\<lparr>batch := (batch st)\<lparr>spec_info := f (spec_info (batch st))\<rparr>\<rparr>"

subsection \<open>Functions from outside eagle_worker.py\<close>

text \<open>
  One field per function that eagle_worker.py calls and whose body is elsewhere. A function
  that can touch the batch or the pools takes the world and returns the new one; a
  function that can raise returns a sum; a pure kernel is a plain function. A
  \<open>LogitsProcessorOutput\<close> that the target worker hands out is named by its index in
  \<open>logits_objs\<close>. \<open>e_forward_batch_generation\<close> is
  \<open>target_worker.forward_batch_generation(model_worker_batch, skip_sample)\<close> with its
  three results; a CUDA graph runner that was not captured (\<open>None\<close>) is \<open>None\<close> in
  \<open>e_draft_graph_can_run\<close> and \<open>e_extend_graph_can_run\<close>. The constructors of the two
  input classes are \<open>e_new_draft_input\<close> and \<open>e_new_verify_input\<close>; device and dtype
  arguments are left out.
\<close>

record 'k env =
  e_is_extend :: "forward_mode \<Rightarrow> bool"
  e_alloc :: "int \<Rightarrow> 'k \<Rightarrow> (int list \<times> 'k) option"
  e_alloc_extend ::
    "int list \<Rightarrow> int list \<Rightarrow> int list \<Rightarrow> int \<Rightarrow> 'k \<Rightarrow> (int list \<times> 'k) option"
  e_get_last_loc :: get_last_loc_fn
  e_assign_draft_cache_locs ::
    "int list \<Rightarrow> int list list \<Rightarrow> int list \<Rightarrow> int list \<Rightarrow> int list \<Rightarrow> int list
       \<Rightarrow> int \<Rightarrow> int \<Rightarrow> int \<Rightarrow> int \<Rightarrow> int \<Rightarrow> int \<Rightarrow> int list list \<times> int list"
  e_next_power_of_2 :: "int \<Rightarrow> int"
  e_create_idle_input ::
    "int \<Rightarrow> int \<Rightarrow> capture_hidden_mode \<Rightarrow> 'k world \<Rightarrow> spec_info \<times> 'k world"
  e_select_top_k_tokens ::
    "int \<Rightarrow> fp list list \<Rightarrow> int list list \<Rightarrow> fp list list \<Rightarrow> fp list list option \<Rightarrow> int
       \<Rightarrow> int list \<times> fp list list \<times> fp list list
          \<times> (fp list list \<times> int list list \<times> int list list)"
  e_attn_backends :: "int list"
  e_draft_runner_forward ::
    "forward_batch \<Rightarrow> bool \<Rightarrow> 'k world \<Rightarrow> error + (logits_processor_output \<times> 'k world)"
  e_softmax :: "fp list list \<Rightarrow> fp list list"
  e_fast_topk :: "fp list list \<Rightarrow> int \<Rightarrow> fp list list \<times> int list list"
  e_prepare_for_verify :: "spec_info \<Rightarrow> int \<Rightarrow> 'k world \<Rightarrow> error + (spec_info \<times> 'k world)"
  e_get_model_worker_batch ::
    "int list option \<Rightarrow> 'k world \<Rightarrow> error + (model_worker_batch \<times> 'k world)"
  e_forward_batch_generation ::
    "model_worker_batch \<Rightarrow> bool \<Rightarrow> 'k world
       \<Rightarrow> error + ((nat \<times> int list \<times> bool) \<times> 'k world)"
  e_generate_token_bitmask ::
    "req list \<Rightarrow> spec_info \<Rightarrow> int list list \<Rightarrow> int list list \<Rightarrow> int list list \<Rightarrow> int
       \<Rightarrow> 'k world \<Rightarrow> error + (int list list option \<times> 'k world)"
  e_spec_verify ::
    "nat \<Rightarrow> int \<Rightarrow> int list list option \<Rightarrow> 'k world
       \<Rightarrow> error + (eagle_verify_output \<times> 'k world)"
  e_log_softmax :: "fp list \<Rightarrow> fp list"
  e_fdiv :: "fp \<Rightarrow> fp \<Rightarrow> fp"
  e_get_top_logprobs :: "fp list list \<Rightarrow> int list \<Rightarrow> fp list list \<times> int list list"
  e_get_token_ids_logprobs ::
    "fp list list \<Rightarrow> int list option list \<Rightarrow> fp list list \<times> int list list"
  e_batch_copy :: "schedule_batch \<Rightarrow> schedule_batch"
  e_prepare_for_idle :: "'k world \<Rightarrow> 'k world"
  e_prepare_extend_after_decode :: "int \<Rightarrow> 'k world \<Rightarrow> error + 'k world"
  e_forward_batch_init_new ::
    "model_worker_batch \<Rightarrow> 'k world \<Rightarrow> error + (forward_batch \<times> 'k world)"
  e_extend_graph_can_run :: "(forward_batch \<Rightarrow> 'k world \<Rightarrow> bool) option"
  e_extend_graph_replay ::
    "forward_batch \<Rightarrow> 'k world \<Rightarrow> error + (logits_processor_output \<times> 'k world)"
  e_attn_init_forward_metadata :: "forward_batch \<Rightarrow> 'k world \<Rightarrow> error + 'k world"
  e_draft_graph_can_run :: "(forward_batch \<Rightarrow> 'k world \<Rightarrow> bool) option"
  e_draft_graph_replay ::
    "forward_batch \<Rightarrow> 'k world
       \<Rightarrow> error + ((fp list list list \<times> int list list list \<times> int list list list) \<times> 'k world)"
  e_draft_attn_init_forward_metadata :: "forward_batch \<Rightarrow> 'k world \<Rightarrow> error + 'k world"
  e_verify_create_idle_input :: "int \<Rightarrow> int \<Rightarrow> int \<Rightarrow> 'k world \<Rightarrow> spec_info \<times> 'k world"
  e_build_tree_kernel_efficient ::
    "int list \<Rightarrow> fp list list list \<Rightarrow> int list list list \<Rightarrow> int list list list \<Rightarrow> int list
       \<Rightarrow> int \<Rightarrow> int \<Rightarrow> int \<Rightarrow> int
       \<Rightarrow> int list \<times> int list \<times> int list list \<times> int list list \<times> int list list \<times> int list"
  e_new_verify_input ::
    "int list \<Rightarrow> int list \<Rightarrow> int list \<Rightarrow> int list list \<Rightarrow> int list list \<Rightarrow> int list list
       \<Rightarrow> int \<Rightarrow> int \<Rightarrow> int \<Rightarrow> capture_hidden_mode \<Rightarrow> int \<Rightarrow> int list option \<Rightarrow> spec_info"
  e_new_draft_input :: "fp list list \<Rightarrow> int list \<Rightarrow> int \<Rightarrow> int \<Rightarrow> spec_info"
  e_prepare_for_extend :: "'k world \<Rightarrow> error + 'k world"

subsection \<open>The KV allocator bridge\<close>

text \<open>
  Modelled from the spec: \<open>backup_state\<close> and \<open>restore_state\<close> of the allocator, which
  are absent from the sources. The spec: the allocator supports \<open>backup_state()\<close>
  returning an opaque token, and \<open>restore_state(token)\<close> releasing everything allocated
  since backup; the state after \<open>restore_state(token)\<close> is byte-equal to the state at
  \<open>backup_state()\<close>. The token is the state at the time of the backup.
\<close>

definition backup_state :: "'k \<Rightarrow> 'k" where
  "backup_state k = k"

definition restore_state :: "'k \<Rightarrow> 'k world \<Rightarrow> 'k world" where
  "restore_state token st = st\<lparr>kv := token, kv_calls := kv_calls st @ [RestoreState]\<rparr>"

text \<open>
  Modelled from the spec: \<open>batch.alloc_token_slots\<close> and
  \<open>batch.alloc_paged_token_slots_extend\<close> of schedule_batch.py, which are absent from
  the sources. The spec: \<open>alloc_token_slots(n, backup_state) \<rightarrow> (slots, token)\<close> and
  \<open>alloc_paged_token_slots_extend(prefix_lens, seq_lens, last_loc, n, backup_state)\<close>;
  exhaustion is an error. Which slots come back is the allocator's choice (\<open>e_alloc\<close>,
  \<open>e_alloc_extend\<close>); the token is taken before the slots are.
\<close>

definition alloc_token_slots ::
  "'k env \<Rightarrow> int \<Rightarrow> bool \<Rightarrow> 'k world \<Rightarrow> error + ((int list \<times> 'k option) \<times> 'k world)" where
  "alloc_token_slots env n backup st =
     (let st1 = st\<lparr>kv_calls := kv_calls st @ [AllocTokenSlots n backup]\<rparr>;
          token = (if backup then Some (backup_state (kv st1)) else None)
      in case e_alloc env n (kv st1) of
           None \<Rightarrow> Inl RuntimeError
         | Some (slots, k') \<Rightarrow> Inr ((slots, token), st1\<lparr>kv := k'\<rparr>))"

definition alloc_paged_token_slots_extend ::
  "'k env \<Rightarrow> int list \<Rightarrow> int list \<Rightarrow> int list \<Rightarrow> int \<Rightarrow> bool \<Rightarrow> 'k world
     \<Rightarrow> error + ((int list \<times> 'k option) \<times> 'k world)" where
  "alloc_paged_token_slots_extend env prefix_lens seq_lens_t last_loc n backup st =
     (let st1 = st\<lparr>kv_calls := kv_calls st
                  @ [AllocPagedTokenSlotsExtend prefix_lens seq_lens_t last_loc n backup]\<rparr>;
          token = (if backup then Some (backup_state (kv st1)) else None)
      in case e_alloc_extend env prefix_lens seq_lens_t last_loc n (kv st1) of
           None \<Rightarrow> Inl RuntimeError
         | Some (slots, k') \<Rightarrow> Inr ((slots, token), st1\<lparr>kv := k'\<rparr>))"

text \<open>Whether an allocator call asked for a backup of the allocator state.\<close>

fun backup_requested :: "kv_call \<Rightarrow> bool" where
  "backup_requested (AllocTokenSlots n b) = b"
| "backup_requested (AllocPagedTokenSlotsExtend p s l n b) = b"
| "backup_requested RestoreState = False"

subsection \<open>Draft preprocessing (_draft_preprocess_decode)\<close>

text \<open>
  The function reads \<open>batch.seq_lens\<close> and \<open>batch.req_pool_indices\<close>, asks the allocator
  for the draft slots, lets the kernel \<open>assign_draft_cache_locs\<close> write them into the
  request-to-token table, and gives the allocator its state back. With
  \<open>backup_state=True\<close> the allocation returns a token, so the last line restores it.
\<close>

definition draft_preprocess_decode :: "'k env \<Rightarrow> worker \<Rightarrow> 'k world \<Rightarrow> error + 'k world" where
  "draft_preprocess_decode env w st0 =
     (let num_seqs = batch_size (batch st0);
          spec = spec_info (batch st0);
          st1 = (if penalizer_is_required (batch st0)
                 then st0\<lparr>cumulated_output_tokens :=
                            cumulated_output_tokens st0 @ [verified_id spec]\<rparr>
                 else st0);
          seq_lens_t = rd (heap st1) (seq_lens (batch st1));
          req_pool_indices_t = rd (heap st1) (req_pool_indices (batch st1))
      in bindE
           (if page_size w = 1
            then alloc_token_slots env (num_seqs * speculative_num_steps w * topk w) True st1
            else if topk w = 1
            then bindE
                   (get_last_loc_large_page_size_top_k_1 (e_get_last_loc env)
                      (req_to_token st1) req_pool_indices_t seq_lens_t
                      (speculative_num_steps w))
                   (\<lambda>(prefix_lens, seq_lens', last_loc).
                      alloc_paged_token_slots_extend env prefix_lens seq_lens' last_loc
                        (num_seqs * speculative_num_steps w) True st1)
            else bindE
                   (get_last_loc_large_page_size_large_top_k (e_get_last_loc env)
                      (req_to_token st1) req_pool_indices_t seq_lens_t
                      (speculative_num_steps w) (topk w) (page_size w))
                   (\<lambda>(prefix_lens, seq_lens', last_loc, num_new_pages, extend_lens).
                      alloc_paged_token_slots_extend env prefix_lens seq_lens' last_loc
                        (tensor_sum extend_lens) True
                        (st1\<lparr>self_num_new_pages_per_topk := num_new_pages,
                             self_extend_lens := extend_lens\<rparr>)))
           (\<lambda>((out_cache_loc0, token_to_kv_pool_state_backup), st2).
              case e_assign_draft_cache_locs env req_pool_indices_t (req_to_token st2)
                     seq_lens_t (self_extend_lens st2) (self_num_new_pages_per_topk st2)
                     out_cache_loc0
                     (case req_to_token st2 of [] \<Rightarrow> 0 | row # _ \<Rightarrow> int (length row))
                     (topk w) (speculative_num_steps w) (page_size w)
                     (e_next_power_of_2 env num_seqs)
                     (e_next_power_of_2 env (speculative_num_steps w)) of
                (req_to_token', out_cache_loc1) \<Rightarrow>
                  let out_cache_loc2 =
                        (if page_size w > 1 \<and> topk w > 1
                         then py_slice_to (num_seqs * topk w * speculative_num_steps w)
                                out_cache_loc1
                         else out_cache_loc1)
                  in bindE (repeat_interleave (topk w) seq_lens_t)
                       (\<lambda>positions'.
                          case token_to_kv_pool_state_backup of
                            None \<Rightarrow> Inl RuntimeError
                          | Some token \<Rightarrow>
                              Inr (restore_state token
                                     (st2\<lparr>req_to_token := req_to_token',
                                          batch := (batch st2)
                                            \<lparr>out_cache_loc := out_cache_loc2,
                                             seq_lens_sum := tensor_sum seq_lens_t,
                                             return_hidden_states := False,
                                             spec_info := (spec_info (batch st2))
                                               \<lparr>positions := positions'\<rparr>\<rparr>\<rparr>)))))"

subsection \<open>The NaN check (_detect_nan_if_needed)\<close>

text \<open>The message written to the logger before the raise is not part of the model.\<close>

definition detect_nan_if_needed :: "worker \<Rightarrow> logits_processor_output \<Rightarrow> error + unit" where
  "detect_nan_if_needed w logits_output =
     (if enable_nan_detection w
      then (let logits = next_token_logits logits_output
            in if list_ex (list_ex isnan) logits then Inl ValueError else Inr ())
      else Inr ())"

subsection \<open>The draft loop (draft_forward)\<close>

text \<open>
  \<open>topk_index = self.hot_token_id[topk_index]\<close>, guarded by
  \<open>self.hot_token_id is not None\<close>: every entry of the index tensor is looked up in the
  map. An entry outside the map raises.
\<close>

definition hot_token_remap :: "worker \<Rightarrow> int list list \<Rightarrow> error + int list list" where
  "hot_token_remap w topk_index_t =
     (case hot_token_id w of
        None \<Rightarrow> Inr topk_index_t
      | Some hot \<Rightarrow> mapE (index_select hot) topk_index_t)"

text \<open>
  \<open>out_cache_loc.reshape(B, K, S).permute((2, 0, 1)).reshape(S, -1)\<close>: row \<open>i\<close> holds the
  slot of step \<open>i\<close> of every branch of every request. A size of \<open>-1\<close> is inferred
  from the number of entries: at most one size may be \<open>-1\<close>, no size may be below
  \<open>-1\<close>, the product of the other sizes must then be positive and divide the number of
  entries, and without a \<open>-1\<close> the product of the sizes must be the number of entries.
  The second \<open>reshape\<close> infers its second size, so it raises when \<open>S\<close> is \<open>-1\<close> (two
  inferred sizes) or \<open>0\<close>.
\<close>

definition reshape_permute :: "int list \<Rightarrow> int \<Rightarrow> int \<Rightarrow> int \<Rightarrow> error + int list list" where
  "reshape_permute out_cache_loc_t b k s =
     (let numel = int (length out_cache_loc_t);
          rows = map (\<lambda>i. map (\<lambda>j. out_cache_loc_t ! (j * nat s + i)) [0..<nat (numel div s)])
                   [0..<nat s]
      in if s \<le> 0 \<or> b < - 1 \<or> k < - 1 \<or> (b = - 1 \<and> k = - 1) then Inl RuntimeError
         else if b = - 1
         then (if 0 < k \<and> numel mod (k * s) = 0 then Inr rows else Inl RuntimeError)
         else if k = - 1
         then (if 0 < b \<and> numel mod (b * s) = 0 then Inr rows else Inl RuntimeError)
         else if numel = b * k * s then Inr rows
         else Inl RuntimeError)"

text \<open>The variables that the loop of \<open>draft_forward\<close> carries from one step to the next.\<close>

record draft_loop =
  l_topk_p :: "fp list list"
  l_topk_index :: "int list list"
  l_hidden_states :: "fp list list"
  l_scores :: "fp list list option"
  score_list :: "fp list list list"
  token_list :: "int list list list"
  parents_list :: "int list list list"
  l_forward_batch :: forward_batch

text \<open>
  \<open>for i in range(self.speculative_num_steps)\<close>, with \<open>n\<close> the number of steps still to
  run. \<open>forward_batch.spec_info\<close> is the object in \<open>batch.spec_info\<close>.
\<close>

fun draft_forward_loop ::
  "'k env \<Rightarrow> worker \<Rightarrow> int list list \<Rightarrow> nat \<Rightarrow> int \<Rightarrow> draft_loop \<Rightarrow> 'k world
     \<Rightarrow> error + (draft_loop \<times> 'k world)" where
  "draft_forward_loop env w out_cache_loc_rows 0 i ls st = Inr (ls, st)"
| "draft_forward_loop env w out_cache_loc_rows (Suc n) i ls st =
     (case e_select_top_k_tokens env i (l_topk_p ls) (l_topk_index ls) (l_hidden_states ls)
             (l_scores ls) (topk w) of
        (input_ids, hidden_states', scores', (tree_info0, tree_info1, tree_info2)) \<Rightarrow>
          let ls1 = ls\<lparr>l_hidden_states := hidden_states', l_scores := Some scores',
                       score_list := score_list ls @ [tree_info0],
                       token_list := token_list ls @ [tree_info1],
                       parents_list := parents_list ls @ [tree_info2]\<rparr>
          in if i = speculative_num_steps w - 1 then Inr (ls1, st)
             else
               bindE (py_index out_cache_loc_rows i) (\<lambda>out_cache_loc_i.
               bindE (py_index (e_attn_backends env) i) (\<lambda>attn_backend_i.
                 let fb = (l_forward_batch ls1)
                            \<lparr>fb_input_ids := input_ids,
                             fb_out_cache_loc := out_cache_loc_i,
                             fb_positions := map (\<lambda>p. wrap64 (p + 1))
                                               (fb_positions (l_forward_batch ls1)),
                             fb_attn_backend := attn_backend_i\<rparr>;
                     st1 = upd_spec (\<lambda>s. s\<lparr>si_hidden_states := hidden_states'\<rparr>) st
                 in bindE (e_draft_runner_forward env fb True st1) (\<lambda>(logits_output, st2).
                    bindE (detect_nan_if_needed w logits_output) (\<lambda>_.
                      case e_fast_topk env (e_softmax env (next_token_logits logits_output))
                             (topk w) of
                        (topk_p', topk_index0) \<Rightarrow>
                          bindE (hot_token_remap w topk_index0) (\<lambda>topk_index'.
                            draft_forward_loop env w out_cache_loc_rows n (i + 1)
                              (ls1\<lparr>l_topk_p := topk_p', l_topk_index := topk_index',
                                   l_hidden_states := lo_hidden_states logits_output,
                                   l_forward_batch := fb\<rparr>)
                              st2))))))"

definition draft_forward ::
  "'k env \<Rightarrow> worker \<Rightarrow> forward_batch \<Rightarrow> 'k world
     \<Rightarrow> error + (((fp list list list \<times> int list list list \<times> int list list list)
                   \<times> forward_batch) \<times> 'k world)" where
  "draft_forward env w fb st =
     (let spec = spec_info (batch st)
      in bindE (py_assert (si_class spec = EagleDraftInput)) (\<lambda>_.
         bindE (hot_token_remap w (topk_index spec)) (\<lambda>topk_index0.
         bindE (reshape_permute (fb_out_cache_loc fb) (fb_batch_size fb) (topk w)
                  (speculative_num_steps w)) (\<lambda>out_cache_loc_rows.
         bindE (draft_forward_loop env w out_cache_loc_rows (nat (speculative_num_steps w)) 0
                  \<lparr>l_topk_p = topk_p spec, l_topk_index = topk_index0,
                   l_hidden_states = si_hidden_states spec, l_scores = None,
                   score_list = [], token_list = [], parents_list = [],
                   l_forward_batch = fb\<rparr> st) (\<lambda>(ls, st').
           Inr (((score_list ls, token_list ls, parents_list ls), l_forward_batch ls), st'))))))"

subsection \<open>Drafting (draft)\<close>

definition draft_preprocess_idle :: "'k env \<Rightarrow> worker \<Rightarrow> 'k world \<Rightarrow> 'k world" where
  "draft_preprocess_idle env w st =
     (case e_create_idle_input env (hidden_size w) (topk w) CHM_LAST st of
        (idle_input, st1) \<Rightarrow> upd_spec (\<lambda>_. idle_input) st1)"

text \<open>
  The local variable \<open>spec_info\<close> of \<open>draft\<close> names the object in \<open>batch.spec_info\<close>, so
  it is read from the batch.
\<close>

definition draft :: "'k env \<Rightarrow> worker \<Rightarrow> 'k world \<Rightarrow> error + (spec_info \<times> 'k world)" where
  "draft env w st0 =
     bindE (if is_idle (forward_mode (batch st0)) then Inr (draft_preprocess_idle env w st0)
            else draft_preprocess_decode env w st0) (\<lambda>st1.
     bindE (py_assert (si_class (spec_info (batch st1)) = EagleDraftInput)) (\<lambda>_.
       let st2 = upd_batch (\<lambda>b. b\<lparr>return_hidden_states := False\<rparr>)
                   (upd_spec (\<lambda>s. s\<lparr>capture_hidden_mode := CHM_LAST,
                                      num_tokens_per_batch := topk w,
                                      num_tokens_for_logprob_per_batch := topk w\<rparr>) st1)
       in bindE (e_get_model_worker_batch env None st2) (\<lambda>(mwb, st3).
          bindE (py_assert (mwb_capture_hidden_mode mwb = CHM_LAST)) (\<lambda>_.
          bindE (e_forward_batch_init_new env mwb st3) (\<lambda>(fb, st4).
          bindE (if (case e_draft_graph_can_run env of None \<Rightarrow> False
                     | Some can_run \<Rightarrow> can_run fb st4)
                 then bindE (e_draft_graph_replay env fb st4) (\<lambda>(lists, st5).
                        Inr ((lists, fb), st5))
                 else
                   let fb1 = fb\<lparr>fb_can_run_dp_cuda_graph := False\<rparr>
                   in bindE (if \<not> is_idle (fb_forward_mode fb1)
                             then e_draft_attn_init_forward_metadata env fb1 st4
                             else Inr st4) (\<lambda>st5.
                        draft_forward env w fb1 st5))
            (\<lambda>(((score_list_r, token_list_r, parents_list_r), fb2), st6).
               if is_idle (forward_mode (batch st6))
               then Inr (e_verify_create_idle_input env (topk w) (speculative_num_steps w)
                           (speculative_num_draft_tokens w) st6)
               else
                 case e_build_tree_kernel_efficient env (verified_id (spec_info (batch st6)))
                        score_list_r token_list_r parents_list_r
                        (rd (heap st6) (seq_lens (batch st6))) (seq_lens_sum (batch st6))
                        (topk w) (speculative_num_steps w) (speculative_num_draft_tokens w) of
                   (tree_mask, position, retrive_index_r, retrive_next_token_r,
                    retrive_next_sibling_r, draft_tokens) \<Rightarrow>
                     Inr (e_new_verify_input env draft_tokens tree_mask position
                            retrive_index_r retrive_next_token_r retrive_next_sibling_r
                            (speculative_num_steps w) (topk w) (speculative_num_draft_tokens w)
                            CHM_FULL (fb_seq_lens_sum fb2) (fb_seq_lens_cpu fb2),
                          st6)))))))"

subsection \<open>Logprobs of the accepted tokens (add_logprob_values)\<close>

text \<open>
  \<open>logprobs[torch.arange(len(ids)), ids]\<close>: entry \<open>ids[i]\<close> of row \<open>i\<close>, for every
  \<open>i\<close> below \<open>len(ids)\<close>.
\<close>

definition gather_rows :: "'a list list \<Rightarrow> int list \<Rightarrow> error + 'a list" where
  "gather_rows rows ids =
     mapE (\<lambda>(i, t). bindE (py_index rows (int i)) (\<lambda>row. py_index row t))
       (zip [0..<length ids] ids)"

text \<open>
  The inner loop \<open>for _ in range(num_tokens)\<close> for one request, with \<open>n\<close> the number of
  rounds still to run and \<open>pt\<close> the running index into the flat tensors.
\<close>

fun attach_tokens ::
  "logits_processor_output \<Rightarrow> int list \<Rightarrow> nat \<Rightarrow> req \<Rightarrow> int \<Rightarrow> error + (req \<times> int)" where
  "attach_tokens lo verified_ids 0 r pt = Inr (r, pt)"
| "attach_tokens lo verified_ids (Suc n) r pt =
     bindE
       (if req_return_logprob r
        then bindE (py_index (next_token_logprobs lo) pt) (\<lambda>lp.
             bindE (py_index verified_ids pt) (\<lambda>vid.
               let r1 = r\<lparr>output_token_logprobs_val := output_token_logprobs_val r @ [lp],
                          output_token_logprobs_idx := output_token_logprobs_idx r @ [vid]\<rparr>
               in if top_logprobs_num r1 > 0
                  then bindE (py_index (next_token_top_logprobs_val lo) pt) (\<lambda>tv.
                       bindE (py_index (next_token_top_logprobs_idx lo) pt) (\<lambda>ti.
                         Inr (r1\<lparr>output_top_logprobs_val := output_top_logprobs_val r1 @ [tv],
                                  output_top_logprobs_idx := output_top_logprobs_idx r1 @ [ti]\<rparr>)))
                  else Inr r1))
        else Inr r)
       (\<lambda>r'. attach_tokens lo verified_ids n r' (pt + 1))"

text \<open>
  The outer loop \<open>for req, num_tokens in zip(batch.reqs, num_tokens_per_req, strict=True)\<close>:
  the strict zip raises when one list ends before the other.
\<close>

fun attach_reqs ::
  "logits_processor_output \<Rightarrow> int list \<Rightarrow> req list \<Rightarrow> int list \<Rightarrow> int
     \<Rightarrow> error + (req list \<times> int)" where
  "attach_reqs lo verified_ids [] [] pt = Inr ([], pt)"
| "attach_reqs lo verified_ids (r # rs) (num_tokens # ns) pt =
     bindE (attach_tokens lo verified_ids (nat num_tokens) r pt) (\<lambda>(r', pt').
     bindE (attach_reqs lo verified_ids rs ns pt') (\<lambda>(rs', pt'').
       Inr (r' # rs', pt'')))"
| "attach_reqs lo verified_ids [] (num_tokens # ns) pt = Inl ValueError"
| "attach_reqs lo verified_ids (r # rs) [] pt = Inl ValueError"

text \<open>
  The parameter \<open>logits_output\<close> of the source is overwritten in its first line by
  \<open>res.logits_output\<close>, so the model has no such parameter. The result also gives the
  final value of \<open>pt\<close>.
\<close>

definition add_logprob_values ::
  "'k env \<Rightarrow> eagle_verify_output \<Rightarrow> 'k world \<Rightarrow> error + (int \<times> 'k world)" where
  "add_logprob_values env res st =
     (let logits_output = logits_objs st (vo_logits_output res);
          b = batch st;
          accepted = accepted_indices res
      in bindE (py_assert (length accepted = length (next_token_logits logits_output))) (\<lambda>_.
         let num_draft_tokens = draft_token_num (spec_info b)
         in bindE (if num_draft_tokens = 0 \<and> accepted \<noteq> [] then Inl RuntimeError
                   else Inr (map (\<lambda>a. a div num_draft_tokens) accepted)) (\<lambda>req_index.
            bindE (index_select (temperatures b) req_index) (\<lambda>temps.
              let logprobs = map2 (\<lambda>row t. e_log_softmax env (map (\<lambda>x. e_fdiv env x t) row))
                               (next_token_logits logits_output) temps;
                  batch_next_token_ids = vo_verified_id res;
                  num_tokens_per_req = map (\<lambda>accept. accept + 1) (accept_length_per_req_cpu res);
                  top_logprobs_nums_repeat_interleaved =
                    concat (map2 (\<lambda>num num_tokens. replicate (nat num_tokens) num)
                              (top_logprobs_nums b) num_tokens_per_req);
                  token_ids_logprobs_repeat_interleaved =
                    concat (map2 (\<lambda>token_ids num_tokens. replicate (nat num_tokens) token_ids)
                              (token_ids_logprobs b) num_tokens_per_req);
                  lo1 = (if list_ex (\<lambda>x. x > 0) (top_logprobs_nums b)
                         then (case e_get_top_logprobs env logprobs
                                      top_logprobs_nums_repeat_interleaved of
                                 (val, idx) \<Rightarrow>
                                   logits_output\<lparr>next_token_top_logprobs_val := val,
                                                 next_token_top_logprobs_idx := idx\<rparr>)
                         else logits_output);
                  lo2 = (if list_ex (\<lambda>x. x \<noteq> None) (token_ids_logprobs b)
                         then (case e_get_token_ids_logprobs env logprobs
                                      token_ids_logprobs_repeat_interleaved of
                                 (val, idx) \<Rightarrow>
                                   lo1\<lparr>next_token_token_ids_logprobs_val := val,
                                       next_token_token_ids_logprobs_idx := idx\<rparr>)
                         else lo1)
              in bindE (gather_rows logprobs batch_next_token_ids) (\<lambda>selected.
                 let lo3 = lo2\<lparr>next_token_logprobs := selected\<rparr>
                 in bindE (attach_reqs lo3 batch_next_token_ids (reqs b) num_tokens_per_req 0)
                      (\<lambda>(reqs', pt).
                         Inr (pt, st\<lparr>logits_objs := (logits_objs st)(vo_logits_output res := lo3),
                                     batch := b\<lparr>reqs := reqs'\<rparr>\<rparr>)))))))"

subsection \<open>Verification (verify)\<close>

text \<open>
  After \<open>batch.spec_info = spec_info\<close> the local variable \<open>spec_info\<close> names the object
  in \<open>batch.spec_info\<close>, so it is read from the batch. The methods \<open>.cpu()\<close> and
  \<open>.to(device)\<close> copy a tensor without changing its entries. The three CPU copies exist
  only when \<open>batch.has_grammar\<close> held before the forward pass.
\<close>

definition verify ::
  "'k env \<Rightarrow> worker \<Rightarrow> spec_info \<Rightarrow> 'k world
     \<Rightarrow> error + ((nat \<times> eagle_verify_output \<times> model_worker_batch \<times> bool) \<times> 'k world)" where
  "verify env w spec_info0 st0 =
     bindE (e_prepare_for_verify env spec_info0 (page_size w) st0) (\<lambda>(spec_info1, st1).
       let st2 = upd_batch (\<lambda>b. b\<lparr>return_hidden_states := False,
                                   forward_mode := (if \<not> is_idle (forward_mode b)
                                                    then TARGET_VERIFY else IDLE),
                                   spec_info := spec_info1\<rparr>) st1
       in bindE (e_get_model_worker_batch env (si_seq_lens_cpu spec_info1) st2)
            (\<lambda>(model_worker_batch, st3).
          bindE (py_assert (mwb_capture_hidden_mode model_worker_batch
                             = capture_hidden_mode (spec_info (batch st3)))) (\<lambda>_.
          bindE (if has_grammar (batch st3)
                 then bindE (view_rows (draft_token (spec_info (batch st3)))
                               (map length (retrive_next_token (spec_info (batch st3)))))
                        (\<lambda>draft_tokens_cpu.
                           Inr (Some (retrive_next_token (spec_info (batch st3)),
                                      retrive_next_sibling (spec_info (batch st3)),
                                      draft_tokens_cpu)))
                 else Inr None) (\<lambda>cpu_copies.
          bindE (e_forward_batch_generation env model_worker_batch True st3)
            (\<lambda>((logits_ref, _, can_run_cuda_graph), st4).
          bindE (if has_grammar (batch st4)
                 then (case cpu_copies of
                         None \<Rightarrow> Inl UnboundLocalError
                       | Some (retrieve_next_token_cpu, retrieve_next_sibling_cpu,
                               draft_tokens_cpu) \<Rightarrow>
                           bindE (e_generate_token_bitmask env (reqs (batch st4))
                                    (spec_info (batch st4)) retrieve_next_token_cpu
                                    retrieve_next_sibling_cpu draft_tokens_cpu
                                    (vocab_size (batch st4)) st4) (\<lambda>(vocab_mask_r, st5).
                             case vocab_mask_r of
                               None \<Rightarrow> Inr (None, st5)
                             | Some m \<Rightarrow>
                                 bindE (py_assert (grammar_present (spec_info (batch st5))))
                                   (\<lambda>_. Inr (Some m,
                                              upd_batch (\<lambda>b. b\<lparr>vocab_mask := None\<rparr>) st5))))
                 else Inr (None, st4)) (\<lambda>(vocab_mask_v, st6).
          bindE (detect_nan_if_needed w (logits_objs st6 logits_ref)) (\<lambda>_.
            let st7 = upd_spec (\<lambda>s. s\<lparr>si_hidden_states :=
                                         lo_hidden_states (logits_objs st6 logits_ref)\<rparr>) st6
            in bindE (e_spec_verify env logits_ref (page_size w) vocab_mask_v st7) (\<lambda>(res, st8).
               let lo = logits_objs st8 logits_ref
               in bindE (index_select (next_token_logits lo) (accepted_indices res))
                    (\<lambda>logits_sel.
                  bindE (index_select (lo_hidden_states lo) (accepted_indices res))
                    (\<lambda>hidden_sel.
                    let st9 = st8\<lparr>logits_objs := (logits_objs st8)
                                     (logits_ref := lo\<lparr>next_token_logits := logits_sel,
                                                       lo_hidden_states := hidden_sel\<rparr>)\<rparr>
                    in bindE (if return_logprob (batch st9)
                              then bindE (add_logprob_values env res st9) (\<lambda>(_, st10). Inr st10)
                              else Inr st9) (\<lambda>st11.
                         Inr ((logits_ref, res, model_worker_batch, can_run_cuda_graph),
                              upd_batch (\<lambda>b. b\<lparr>forward_mode :=
                                                   (if \<not> is_idle (forward_mode b)
                                                    then DECODE else IDLE),
                                                 spec_info := vo_draft_input res\<rparr>)
                                st11))))))))))))"

text \<open>
  The same functions with an assertion at the entry of \<open>spec_info.verify\<close>, the only place
  where a vocabulary mask is applied to the logits: a mask is handed over only when
  \<open>batch.sampling_info.vocab_mask\<close> is \<open>None\<close>.
\<close>

definition asserting_mask_cleared :: "'k env \<Rightarrow> 'k env" where
  "asserting_mask_cleared env =
     env\<lparr>e_spec_verify :=
           (\<lambda>logits_ref p mask st.
              if mask \<noteq> None \<and> vocab_mask (batch st) \<noteq> None then Inl AssertionError
              else e_spec_verify env logits_ref p mask st)\<rparr>"

subsection \<open>Seeding the draft model (forward_target_extend, forward_draft_extend)\<close>

definition capture_for_decode ::
  "'k env \<Rightarrow> worker \<Rightarrow> logits_processor_output \<Rightarrow> spec_info \<Rightarrow> spec_info" where
  "capture_for_decode env w logits_output draft_input =
     (case e_fast_topk env (e_softmax env (next_token_logits logits_output)) (topk w) of
        (topk_p', topk_index') \<Rightarrow>
          draft_input\<lparr>topk_p := topk_p', topk_index := topk_index',
                      si_hidden_states := lo_hidden_states logits_output\<rparr>)"

definition forward_target_extend ::
  "'k env \<Rightarrow> worker \<Rightarrow> 'k world
     \<Rightarrow> error + ((nat \<times> int list \<times> int \<times> int list option) \<times> 'k world)" where
  "forward_target_extend env w st0 =
     bindE (e_get_model_worker_batch env None st0) (\<lambda>(mwb0, st1).
       let model_worker_batch = mwb0\<lparr>mwb_capture_hidden_mode := CHM_FULL\<rparr>
       in bindE (e_forward_batch_generation env model_worker_batch False st1)
            (\<lambda>((logits_ref, next_token_ids, _), st2).
               Inr ((logits_ref, next_token_ids, bid model_worker_batch,
                     mwb_seq_lens_cpu model_worker_batch), st2)))"

text \<open>
  \<open>forward_batch.spec_info\<close> is the object in \<open>batch.spec_info\<close> (the source asserts
  it), so \<open>capture_for_decode\<close> writes to the batch.
\<close>

definition forward_draft_extend ::
  "'k env \<Rightarrow> worker \<Rightarrow> fp list list \<Rightarrow> int list \<Rightarrow> int list option \<Rightarrow> 'k world
     \<Rightarrow> error + 'k world" where
  "forward_draft_extend env w hidden_states_a next_token_ids seq_lens_cpu st0 =
     (let st1 = upd_batch (\<lambda>b. b\<lparr>spec_info := e_new_draft_input env hidden_states_a
                                                next_token_ids 1 1,
                                   return_hidden_states := False\<rparr>) st0
      in bindE (e_prepare_for_extend env st1) (\<lambda>st2.
         let st3 = upd_spec (\<lambda>s. s\<lparr>capture_hidden_mode := CHM_LAST\<rparr>) st2
         in bindE (e_get_model_worker_batch env seq_lens_cpu st3) (\<lambda>(model_worker_batch, st4).
            bindE (e_forward_batch_init_new env model_worker_batch st4) (\<lambda>(fb0, st5).
              let fb = fb0\<lparr>fb_return_logprob := False\<rparr>
              in bindE (e_draft_runner_forward env fb False st5) (\<lambda>(logits_output, st6).
                 bindE (detect_nan_if_needed w logits_output) (\<lambda>_.
                 bindE (py_assert (si_class (spec_info (batch st6)) = EagleDraftInput)) (\<lambda>_.
                   Inr (upd_spec (capture_for_decode env w logits_output) st6))))))))"

subsection \<open>The draft extend after a decode step (forward_draft_extend_after_decode)\<close>

text \<open>
  The four backups: \<open>seq_lens_backup\<close> is a clone, a tensor object of its own that no
  other code can reach, so it is held as the entries it was cloned from and becomes an
  object of the store when it is assigned to \<open>batch.seq_lens\<close>; \<open>req_pool_indices_backup\<close>
  and \<open>accept_length_backup\<close> are the references that the two fields hold on entry, to
  the very tensor objects that the functions called in between can reach;
  \<open>return_logprob_backup\<close> is a boolean.

  When the input is not idle and has no verified token, the local name \<open>batch\<close> is bound
  to a copy: everything after that line, the restore included, works on the copy, and the
  batch of the caller keeps its fields. The world of the model carries the batch that the
  local name denotes and gets the caller's batch back at the end.
\<close>

definition forward_draft_extend_after_decode ::
  "'k env \<Rightarrow> worker \<Rightarrow> 'k world \<Rightarrow> error + 'k world" where
  "forward_draft_extend_after_decode env w st0 =
     (let b0 = batch st0
      in bindE (py_assert (si_class (spec_info b0) = EagleDraftInput)) (\<lambda>_.
         let seq_lens_backup = rd (heap st0) (seq_lens b0);
             req_pool_indices_backup = req_pool_indices b0;
             accept_length_backup = accept_length (spec_info b0);
             return_logprob_backup = return_logprob b0;
             input_is_idle = is_idle (forward_mode b0);
             copied = (\<not> input_is_idle \<and> verified_id (spec_info b0) = []);
             st1 = (if copied
                    then (case e_create_idle_input env
                                 (if is_eagle3 w then hidden_size w * 3 else hidden_size w)
                                 (topk w) CHM_LAST
                                 (e_prepare_for_idle env (st0\<lparr>batch := e_batch_copy env b0\<rparr>)) of
                            (idle_input, st_idle) \<Rightarrow> upd_spec (\<lambda>_. idle_input) st_idle)
                    else st0);
             st2 = upd_spec (\<lambda>s. s\<lparr>num_tokens_per_batch := speculative_num_steps w + 1,
                                     num_tokens_for_logprob_per_batch := 1\<rparr>) st1
         in bindE (e_prepare_extend_after_decode env (speculative_num_steps w) st2) (\<lambda>st3.
            let st4 = upd_batch (\<lambda>b. b\<lparr>forward_mode := (if \<not> is_idle (forward_mode b)
                                                          then DRAFT_EXTEND else IDLE),
                                        return_hidden_states := False\<rparr>) st3
            in bindE (e_get_model_worker_batch env None st4) (\<lambda>(model_worker_batch, st5).
               bindE (py_assert (mwb_capture_hidden_mode model_worker_batch = CHM_LAST)) (\<lambda>_.
               bindE (e_forward_batch_init_new env model_worker_batch st5) (\<lambda>(fb0, st6).
                 let fb1 = fb0\<lparr>fb_seq_lens_sum :=
                                 (case fb_seq_lens_cpu fb0 of
                                    Some cpu \<Rightarrow> tensor_sum cpu
                                  | None \<Rightarrow> tensor_sum (rd (heap st6) (seq_lens (batch st6))))\<rparr>;
                     can_cuda_graph = (case e_extend_graph_can_run env of
                                         None \<Rightarrow> False
                                       | Some can_run \<Rightarrow> can_run fb1 st6)
                 in bindE
                      (if can_cuda_graph
                       then bindE (e_extend_graph_replay env fb1 st6) (\<lambda>(logits_output, st7).
                              Inr (logits_output,
                                   upd_spec (\<lambda>s. s\<lparr>topk_p := lo_topk_p logits_output,
                                                    topk_index := lo_topk_index logits_output,
                                                    si_hidden_states :=
                                                      lo_hidden_states logits_output\<rparr>) st7))
                       else
                         let fb2 = fb1\<lparr>fb_can_run_dp_cuda_graph := False\<rparr>
                         in bindE (if \<not> is_idle (fb_forward_mode fb2)
                                   then e_attn_init_forward_metadata env fb2 st6
                                   else Inr st6) (\<lambda>st7.
                            bindE (e_draft_runner_forward env fb2 True st7)
                              (\<lambda>(logits_output, st8).
                                 Inr (logits_output,
                                      upd_spec (capture_for_decode env w logits_output) st8))))
                      (\<lambda>(logits_output, st9).
                         bindE (detect_nan_if_needed w logits_output) (\<lambda>_.
                           case new_tensor seq_lens_backup (heap st9) of
                             (seq_lens_ref, heap') \<Rightarrow>
                               let restored =
                                     (batch st9)
                                       \<lparr>forward_mode := (if \<not> input_is_idle then DECODE
                                                         else IDLE),
                                        seq_lens := seq_lens_ref,
                                        req_pool_indices := req_pool_indices_backup,
                                        spec_info := (spec_info (batch st9))
                                          \<lparr>accept_length := accept_length_backup\<rparr>,
                                        return_logprob := return_logprob_backup\<rparr>
                               in Inr (st9\<lparr>heap := heap',
                                          batch := (if copied then b0 else restored)\<rparr>)))))))))"

subsection \<open>The entry point (forward_batch_speculative_generation)\<close>

text \<open>
  The five methods that the entry point calls are the fields of a record, so that what is
  proved about the dispatch holds for whatever they do; \<open>eagle_stages\<close> fills the record
  with the methods of the worker. The first component of the result lists the methods
  called, in order, also when one of them raised. \<open>draft_tp_context\<close> switches the
  tensor-parallel group around a call and is not part of the model.
\<close>

datatype stage =
  ForwardTargetExtend | ForwardDraftExtend | Draft | Verify | ForwardDraftExtendAfterDecode

record 'k stages =
  s_forward_target_extend ::
    "'k world \<Rightarrow> error + ((nat \<times> int list \<times> int \<times> int list option) \<times> 'k world)"
  s_forward_draft_extend ::
    "fp list list \<Rightarrow> int list \<Rightarrow> int list option \<Rightarrow> 'k world \<Rightarrow> error + 'k world"
  s_draft :: "'k world \<Rightarrow> error + (spec_info \<times> 'k world)"
  s_verify ::
    "spec_info \<Rightarrow> 'k world
       \<Rightarrow> error + ((nat \<times> eagle_verify_output \<times> model_worker_batch \<times> bool) \<times> 'k world)"
  s_forward_draft_extend_after_decode :: "'k world \<Rightarrow> error + 'k world"

definition eagle_stages :: "'k env \<Rightarrow> worker \<Rightarrow> 'k stages" where
  "eagle_stages env w =
     \<lparr>s_forward_target_extend = forward_target_extend env w,
      s_forward_draft_extend = forward_draft_extend env w,
      s_draft = draft env w,
      s_verify = verify env w,
      s_forward_draft_extend_after_decode = forward_draft_extend_after_decode env w\<rparr>"

definition forward_batch_speculative_generation ::
  "'k env \<Rightarrow> 'k stages \<Rightarrow> worker \<Rightarrow> 'k world
     \<Rightarrow> stage list \<times> (error + ((nat \<times> int list \<times> int \<times> int \<times> bool) \<times> 'k world))" where
  "forward_batch_speculative_generation env stg w st =
     (if e_is_extend env (forward_mode (batch st)) \<or> is_extend_in_batch (batch st)
      then (case s_forward_target_extend stg st of
              Inl e \<Rightarrow> ([ForwardTargetExtend], Inl e)
            | Inr ((logits_ref, next_token_ids, bid_r, seq_lens_cpu), st1) \<Rightarrow>
                (case s_forward_draft_extend stg (lo_hidden_states (logits_objs st1 logits_ref))
                        next_token_ids seq_lens_cpu st1 of
                   Inl e \<Rightarrow> ([ForwardTargetExtend, ForwardDraftExtend], Inl e)
                 | Inr st2 \<Rightarrow>
                     ([ForwardTargetExtend, ForwardDraftExtend],
                      Inr ((logits_ref, next_token_ids, bid_r, 0, False), st2))))
      else (case s_draft stg st of
              Inl e \<Rightarrow> ([Draft], Inl e)
            | Inr (spec_info_r, st1) \<Rightarrow>
                (case s_verify stg spec_info_r st1 of
                   Inl e \<Rightarrow> ([Draft, Verify], Inl e)
                 | Inr ((logits_ref, verify_output, model_worker_batch, can_run_cuda_graph),
                        st2) \<Rightarrow>
                     if enable_dp_attention w \<or> verified_id (spec_info (batch st2)) \<noteq> []
                     then (case s_forward_draft_extend_after_decode stg st2 of
                             Inl e \<Rightarrow> ([Draft, Verify, ForwardDraftExtendAfterDecode], Inl e)
                           | Inr st3 \<Rightarrow>
                               ([Draft, Verify, ForwardDraftExtendAfterDecode],
                                Inr ((logits_ref, vo_verified_id verify_output,
                                      bid model_worker_batch,
                                      sum_list (accept_length_per_req_cpu verify_output),
                                      can_run_cuda_graph), st3)))
                     else ([Draft, Verify],
                           Inr ((logits_ref, vo_verified_id verify_output,
                                 bid model_worker_batch,
                                 sum_list (accept_length_per_req_cpu verify_output),
                                 can_run_cuda_graph), st2)))))"

subsection \<open>Choosing the attention backend (init_attention_backend)\<close>

text \<open>
  The backend classes are constructors; a multi-step draft backend is built from
  \<open>self.topk\<close> and \<open>self.speculative_num_steps\<close>, an extend backend with
  \<open>skip_prefill=False\<close>. \<open>global_server_args_dict\<close> is a dictionary from option names
  to booleans, and reading a missing key raises.
\<close>

datatype draft_backend =
  FlashInferMultiStepDraftBackend int int
| FlashInferMLAMultiStepDraftBackend int int
| TritonMultiStepDraftBackend int int
| FlashAttentionMultiStepBackend int int
| FlashMLAMultiStepDraftBackend int int

datatype extend_backend =
  FlashInferAttnBackend | FlashInferMLAAttnBackend | TritonAttnBackend | FlashAttentionBackend

record attn_backends =
  has_prefill_wrapper_verify :: bool
  draft_extend_attn_backend :: "extend_backend option"
  draft_attn_backend :: draft_backend

definition init_attention_backend ::
  "(string \<Rightarrow> bool option) \<Rightarrow> worker \<Rightarrow> error + attn_backends" where
  "init_attention_backend global_server_args_dict w =
     (if attention_backend w = ''flashinfer''
      then (case global_server_args_dict ''use_mla_backend'' of
              None \<Rightarrow> Inl KeyError
            | Some use_mla_backend \<Rightarrow>
                if \<not> use_mla_backend
                then Inr \<lparr>has_prefill_wrapper_verify = True,
                          draft_extend_attn_backend = Some FlashInferAttnBackend,
                          draft_attn_backend =
                            FlashInferMultiStepDraftBackend (topk w) (speculative_num_steps w)\<rparr>
                else Inr \<lparr>has_prefill_wrapper_verify = True,
                          draft_extend_attn_backend = Some FlashInferMLAAttnBackend,
                          draft_attn_backend =
                            FlashInferMLAMultiStepDraftBackend (topk w)
                              (speculative_num_steps w)\<rparr>)
      else if attention_backend w = ''triton''
      then Inr \<lparr>has_prefill_wrapper_verify = False,
                draft_extend_attn_backend = Some TritonAttnBackend,
                draft_attn_backend =
                  TritonMultiStepDraftBackend (topk w) (speculative_num_steps w)\<rparr>
      else if attention_backend w = ''fa3''
      then Inr \<lparr>has_prefill_wrapper_verify = False,
                draft_extend_attn_backend = Some FlashAttentionBackend,
                draft_attn_backend =
                  FlashAttentionMultiStepBackend (topk w) (speculative_num_steps w)\<rparr>
      else if attention_backend w = ''flashmla''
      then Inr \<lparr>has_prefill_wrapper_verify = False,
                draft_extend_attn_backend = None,
                draft_attn_backend =
                  FlashMLAMultiStepDraftBackend (topk w) (speculative_num_steps w)\<rparr>
      else Inl ValueError)"

subsection \<open>The NaN check where logits are produced\<close>

text \<open>
  The same functions with the check moved to the producers and the consumer of logits:
  the draft model runner and the CUDA graph runner of the draft extend check the logits
  they hand out, and \<open>spec_info.verify\<close> checks the target logits it is handed. The
  target worker (\<open>forward_batch_generation\<close>) and the CUDA graph runner of the draft
  steps are left as they are.
\<close>

definition nan_checked :: "worker \<Rightarrow> 'k env \<Rightarrow> 'k env" where
  "nan_checked w env =
     env\<lparr>e_draft_runner_forward :=
           (\<lambda>fb skip st.
              bindE (e_draft_runner_forward env fb skip st) (\<lambda>(logits_output, st').
              bindE (detect_nan_if_needed w logits_output) (\<lambda>_. Inr (logits_output, st')))),
         e_extend_graph_replay :=
           (\<lambda>fb st.
              bindE (e_extend_graph_replay env fb st) (\<lambda>(logits_output, st').
              bindE (detect_nan_if_needed w logits_output) (\<lambda>_. Inr (logits_output, st')))),
         e_spec_verify :=
           (\<lambda>logits_ref p mask st.
              bindE (detect_nan_if_needed w (logits_objs st logits_ref)) (\<lambda>_.
                e_spec_verify env logits_ref p mask st))\<rparr>"

subsection \<open>A concrete allocator, concrete kernels and concrete batches\<close>

text \<open>
  To run the definitions on concrete batches: the allocator state is the list of free
  slots and an allocation takes the first \<open>n\<close> of them (none when fewer are free); the
  kernels leave the table and the slots as they are; the model runners return the
  logits they are told to.
\<close>

definition blank_spec_info :: spec_info where
  "blank_spec_info =
     \<lparr>si_class = EagleDraftInput, si_hidden_states = [], verified_id = [], topk_p = [],
      topk_index = [], positions = [], accept_length = None, capture_hidden_mode = CHM_LAST,
      num_tokens_per_batch = 1, num_tokens_for_logprob_per_batch = 1, draft_token = [],
      retrive_next_token = [], retrive_next_sibling = [], grammar_present = False,
      si_seq_lens_cpu = None, draft_token_num = 0\<rparr>"

definition blank_logits :: logits_processor_output where
  "blank_logits =
     \<lparr>next_token_logits = [], lo_hidden_states = [], lo_topk_p = [], lo_topk_index = [],
      next_token_logprobs = [], next_token_top_logprobs_val = [],
      next_token_top_logprobs_idx = [], next_token_token_ids_logprobs_val = [],
      next_token_token_ids_logprobs_idx = []\<rparr>"

definition blank_forward_batch :: forward_batch where
  "blank_forward_batch =
     \<lparr>fb_forward_mode = DECODE, fb_batch_size = 0, fb_input_ids = [], fb_out_cache_loc = [],
      fb_positions = [], fb_attn_backend = 0, fb_seq_lens_sum = 0, fb_seq_lens_cpu = None,
      fb_can_run_dp_cuda_graph = False, fb_return_logprob = False\<rparr>"

definition take_free :: "int \<Rightarrow> int list \<Rightarrow> (int list \<times> int list) option" where
  "take_free n free =
     (if 0 \<le> n \<and> nat n \<le> length free then Some (take (nat n) free, drop (nat n) free)
      else None)"

text \<open>The free slots \<open>a, a + 1, \<dots>, a + n - 1\<close>.\<close>

definition free_range :: "int \<Rightarrow> nat \<Rightarrow> int list" where
  "free_range a n = map (\<lambda>i. a + int i) [0..<n]"

definition list_env :: "logits_processor_output \<Rightarrow> eagle_verify_output \<Rightarrow> int list env" where
  "list_env draft_logits verify_result =
     \<lparr>e_is_extend = (\<lambda>m. m = EXTEND \<or> m = MIXED),
      e_alloc = take_free,
      e_alloc_extend = (\<lambda>prefix_lens seq_lens_t last_loc n free. take_free n free),
      e_get_last_loc = (\<lambda>table pool_indices prefix_lens. map (\<lambda>p. - 1) prefix_lens),
      e_assign_draft_cache_locs =
        (\<lambda>pool_indices table seq_lens_t extend_lens new_pages slots width k s p b2 s2.
           (table, slots)),
      e_next_power_of_2 = (\<lambda>n. n),
      e_create_idle_input = (\<lambda>h k m st. (blank_spec_info, st)),
      e_select_top_k_tokens =
        (\<lambda>i p idx hidden scores k. (concat idx, hidden, p, (p, idx, idx))),
      e_attn_backends = [0, 1, 2, 3],
      e_draft_runner_forward = (\<lambda>fb skip st. Inr (draft_logits, st)),
      e_softmax = (\<lambda>logits. logits),
      e_fast_topk = (\<lambda>probs k. (probs, lo_topk_index draft_logits)),
      e_prepare_for_verify = (\<lambda>s p st. Inr (s, st)),
      e_get_model_worker_batch =
        (\<lambda>cpu st. Inr (\<lparr>bid = 0,
                          mwb_capture_hidden_mode = capture_hidden_mode (spec_info (batch st)),
                          mwb_seq_lens_cpu = cpu\<rparr>, st)),
      e_forward_batch_generation = (\<lambda>mwb skip st. Inr ((0, [], False), st)),
      e_generate_token_bitmask = (\<lambda>rs s nt ns dt v st. Inr (Some [[1, 0]], st)),
      e_spec_verify = (\<lambda>logits_ref p mask st. Inr (verify_result, st)),
      e_log_softmax = (\<lambda>row. row),
      e_fdiv = (\<lambda>x t. case (x, t) of (Num a, Num b) \<Rightarrow> Num (a / b) | _ \<Rightarrow> NaN),
      e_get_top_logprobs = (\<lambda>logprobs nums. ([], [])),
      e_get_token_ids_logprobs = (\<lambda>logprobs ids. ([], [])),
      e_batch_copy = (\<lambda>b. b),
      e_prepare_for_idle = upd_batch (\<lambda>b. b\<lparr>forward_mode := IDLE\<rparr>),
      e_prepare_extend_after_decode = (\<lambda>s st. Inr st),
      e_forward_batch_init_new =
        (\<lambda>mwb st. Inr (blank_forward_batch\<lparr>fb_forward_mode := forward_mode (batch st)\<rparr>, st)),
      e_extend_graph_can_run = None,
      e_extend_graph_replay = (\<lambda>fb st. Inr (draft_logits, st)),
      e_attn_init_forward_metadata = (\<lambda>fb st. Inr st),
      e_draft_graph_can_run = None,
      e_draft_graph_replay = (\<lambda>fb st. Inr (([], [], []), st)),
      e_draft_attn_init_forward_metadata = (\<lambda>fb st. Inr st),
      e_verify_create_idle_input = (\<lambda>k s d st. (blank_spec_info\<lparr>si_class := EagleVerifyInput\<rparr>, st)),
      e_build_tree_kernel_efficient =
        (\<lambda>vid scores tokens parents seq_lens_t total k s d. ([], [], [], [], [], [])),
      e_new_verify_input =
        (\<lambda>tokens mask pos ri rnt rns s k d m total cpu.
           blank_spec_info\<lparr>si_class := EagleVerifyInput, draft_token := tokens,
                            positions := pos, retrive_next_token := rnt,
                            retrive_next_sibling := rns, capture_hidden_mode := m,
                            si_seq_lens_cpu := cpu, draft_token_num := d\<rparr>),
      e_new_draft_input =
        (\<lambda>hidden vid n1 n2.
           blank_spec_info\<lparr>si_hidden_states := hidden, verified_id := vid,
                            num_tokens_per_batch := n1,
                            num_tokens_for_logprob_per_batch := n2\<rparr>),
      e_prepare_for_extend = (\<lambda>st. Inr st)\<rparr>"

definition blank_verify_output :: eagle_verify_output where
  "blank_verify_output =
     \<lparr>vo_draft_input = blank_spec_info, vo_logits_output = 0, vo_verified_id = [],
      accept_length_per_req_cpu = [], accepted_indices = []\<rparr>"

definition blank_req :: req where
  "blank_req =
     \<lparr>req_return_logprob = False, top_logprobs_num = 0, output_token_logprobs_val = [],
      output_token_logprobs_idx = [], output_top_logprobs_val = [],
      output_top_logprobs_idx = []\<rparr>"

text \<open>
  A decode batch of the given requests: \<open>seq_lens\<close> is tensor 0 of the store,
  \<open>req_pool_indices\<close> tensor 1 and \<open>accept_length\<close> tensor 2.
\<close>

definition decode_batch :: "req list \<Rightarrow> schedule_batch" where
  "decode_batch rs =
     \<lparr>reqs = rs, forward_mode = DECODE, is_extend_in_batch = False, seq_lens = 0,
      req_pool_indices = 1, out_cache_loc = [], seq_lens_sum = 0,
      return_hidden_states = True, return_logprob = False, has_grammar = False,
      spec_info = blank_spec_info\<lparr>verified_id := map (\<lambda>r. 5) rs, accept_length := Some 2\<rparr>,
      vocab_mask = None, vocab_size = 4, temperatures = map (\<lambda>r. Num 1) rs,
      penalizer_is_required = False, top_logprobs_nums = map (\<lambda>r. 0) rs,
      token_ids_logprobs = map (\<lambda>r. None) rs\<rparr>"

definition decode_world :: "req list \<Rightarrow> int list \<Rightarrow> int list \<Rightarrow> int list world" where
  "decode_world rs seq_lens_t free =
     \<lparr>batch = decode_batch rs,
      heap = \<lparr>cells = (\<lambda>r. if r = 0 then seq_lens_t
                            else if r = 1 then map int [0..<length rs]
                            else if r = 2 then map (\<lambda>r. 0) rs else []),
              next_ref = 3\<rparr>,
      logits_objs = (\<lambda>r. blank_logits),
      kv = free,
      req_to_token = [],
      self_extend_lens = [],
      self_num_new_pages_per_topk = [],
      kv_calls = [],
      cumulated_output_tokens = []\<rparr>"

definition example_worker :: "int \<Rightarrow> int \<Rightarrow> int \<Rightarrow> worker" where
  "example_worker k s p =
     \<lparr>topk = k, speculative_num_steps = s, speculative_num_draft_tokens = 1 + k * s,
      page_size = p, enable_nan_detection = True, enable_dp_attention = False,
      hot_token_id = None, is_eagle3 = False, hidden_size = 2,
      attention_backend = ''flashinfer''\<rparr>"

text \<open>\<open>t.add_(k)\<close>: the in-place addition to the tensor object \<open>r\<close>.\<close>

definition add_in_place :: "ref \<Rightarrow> int \<Rightarrow> 'k world \<Rightarrow> 'k world" where
  "add_in_place r k st =
     st\<lparr>heap := (heap st)\<lparr>cells := (cells (heap st))(r := map (\<lambda>x. x + k) (cells (heap st) r))\<rparr>\<rparr>"

text \<open>
  Modelled from the spec: \<open>prepare_extend_after_decode\<close> of the draft input, which is
  absent from the sources. The spec: the routine mutates \<open>seq_lens\<close>,
  \<open>req_pool_indices\<close>, \<open>accept_length\<close> and \<open>return_logprob\<close> in place for shape
  convenience. In this environment it counts the bonus token into \<open>accept_length\<close> in
  place (\<open>accept_length.add_(1)\<close>).
\<close>

definition in_place_env :: "int list env" where
  "in_place_env =
     (list_env blank_logits blank_verify_output)
       \<lparr>e_prepare_extend_after_decode :=
          (\<lambda>s st. case accept_length (spec_info (batch st)) of
                     None \<Rightarrow> Inr st
                   | Some r \<Rightarrow> Inr (add_in_place r 1 st))\<rparr>"

text \<open>A verify input for a batch with a grammar.\<close>

definition grammar_verify_input :: spec_info where
  "grammar_verify_input =
     blank_spec_info\<lparr>si_class := EagleVerifyInput, capture_hidden_mode := CHM_FULL,
                      draft_token := [5, 6], retrive_next_token := [[1, - 1]],
                      retrive_next_sibling := [[- 1, - 1]], grammar_present := True,
                      draft_token_num := 2\<rparr>"

text \<open>A decode world whose batch carries a grammar and the mask of an earlier step.\<close>

definition stale_mask_world :: "int list world" where
  "stale_mask_world =
     upd_batch (\<lambda>b. b\<lparr>has_grammar := True, vocab_mask := Some [[9, 9]]\<rparr>)
       (decode_world [blank_req] [7] (free_range 100 4))"

text \<open>
  A batch of two requests, of which only the first asked for logprobs, after a
  verification with three draft tokens per request that accepted one draft token of the
  first request and none of the second: the flat indices 0 and 1 belong to the first
  request, the flat index 3 to the second.
\<close>

definition logprob_result :: eagle_verify_output where
  "logprob_result =
     blank_verify_output\<lparr>vo_verified_id := [1, 0, 1], accept_length_per_req_cpu := [1, 0],
                          accepted_indices := [0, 1, 3]\<rparr>"

definition logprob_world :: "int list world" where
  "logprob_world =
     (upd_batch (\<lambda>b. b\<lparr>return_logprob := True, temperatures := [Num 1, Num 2],
                          spec_info := (spec_info b)\<lparr>draft_token_num := 3\<rparr>\<rparr>)
        (decode_world [blank_req\<lparr>req_return_logprob := True\<rparr>, blank_req] [5, 9]
           (free_range 100 4)))
       \<lparr>logits_objs :=
          (\<lambda>r. blank_logits\<lparr>next_token_logits :=
                                [[Num 1, Num 2], [Num 3, Num 4], [Num 6, Num 8]]\<rparr>)\<rparr>"

text \<open>
  A batch in extend mode whose target model hands out logits with a NaN (the object 0 of
  the store of logits), while the draft model hands out what the environment says.
\<close>

definition nan_target_world :: "int list world" where
  "nan_target_world =
     (upd_batch (\<lambda>b. b\<lparr>forward_mode := EXTEND\<rparr>)
        (decode_world [blank_req] [7] (free_range 100 4)))
       \<lparr>logits_objs := (\<lambda>r. blank_logits\<lparr>next_token_logits := [[Num 0, NaN]]\<rparr>)\<rparr>"

section \<open>Properties\<close>

subsection \<open>Auxiliary facts\<close>

lemma bindE_Inr_iff: "bindE m f = Inr y \<longleftrightarrow> (\<exists>x. m = Inr x \<and> f x = Inr y)"
  by (cases m) (simp_all add: bindE_def)

lemma bindE_Inl [simp]: "bindE (Inl e) f = Inl e"
  by (simp add: bindE_def)

lemma bindE_Inr [simp]: "bindE (Inr x) f = f x"
  by (simp add: bindE_def)

text \<open>Within the signed 64-bit range the reduction changes nothing.\<close>

lemma wrap64_id: "fits64 x \<Longrightarrow> wrap64 x = x"
  by (simp add: wrap64_def fits64_def)

lemma fits64_nonneg: "0 \<le> x \<Longrightarrow> x < 2 ^ 63 \<Longrightarrow> fits64 x"
  by (simp add: fits64_def)

lemma wrap64_nonneg: "0 \<le> x \<Longrightarrow> x < 2 ^ 63 \<Longrightarrow> wrap64 x = x"
  by (simp add: wrap64_id fits64_nonneg)

text \<open>The reduction of a literal, for running the definitions on concrete batches.\<close>

lemma wrap64_eval:
  "wrap64 0 = 0"
  "wrap64 1 = 1"
  "wrap64 (numeral n) = (numeral n + 2 ^ 63) mod 2 ^ 64 - 2 ^ 63"
  "wrap64 (- numeral n) = (- numeral n + 2 ^ 63) mod 2 ^ 64 - 2 ^ 63"
  by (simp_all add: wrap64_def)

text \<open>The rounding-up division of the layout is the ceiling of the quotient.\<close>

lemma ceil_div_int:
  fixes a P :: int
  assumes P: "0 < P"
  shows "(a + P - 1) div P = \<lceil>real_of_int a / real_of_int P\<rceil>"
proof -
  define q where "q = (a + P - 1) div P"
  define r where "r = (a + P - 1) mod P"
  have eq: "a + P - 1 = q * P + r"
    by (simp add: q_def r_def)
  have r: "0 \<le> r" "r < P"
    using P by (simp_all add: r_def)
  have lo: "(q - 1) * P < a"
  proof -
    have "(q - 1) * P = q * P - P" by (simp add: algebra_simps)
    then show ?thesis using eq r by linarith
  qed
  have hi: "a \<le> q * P"
    using eq r by linarith
  have Pr: "0 < real_of_int P" using P by simp
  have "real_of_int ((q - 1) * P) < real_of_int a" using lo by (simp only: of_int_less_iff)
  then have lo': "real_of_int q - 1 < real_of_int a / real_of_int P"
    using Pr by (simp add: pos_less_divide_eq)
  have "real_of_int a \<le> real_of_int (q * P)" using hi by (simp only: of_int_le_iff)
  then have hi': "real_of_int a / real_of_int P \<le> real_of_int q"
    using Pr by (simp add: pos_divide_le_eq)
  have "\<lceil>real_of_int a / real_of_int P\<rceil> = q"
    using lo' hi' by (intro ceiling_unique) simp_all
  then show ?thesis by (simp add: q_def)
qed

lemma alloc_token_slots_Inr:
  "alloc_token_slots env n True st = Inr ((slots, tok), st2) \<longleftrightarrow>
     (\<exists>k'. e_alloc env n (kv st) = Some (slots, k') \<and> tok = Some (kv st)
        \<and> st2 = st\<lparr>kv_calls := kv_calls st @ [AllocTokenSlots n True], kv := k'\<rparr>)"
  by (auto simp: alloc_token_slots_def backup_state_def Let_def split: option.splits)

lemma alloc_paged_Inr:
  "alloc_paged_token_slots_extend env p s l n True st = Inr ((slots, tok), st2) \<longleftrightarrow>
     (\<exists>k'. e_alloc_extend env p s l n (kv st) = Some (slots, k') \<and> tok = Some (kv st)
        \<and> st2 = st\<lparr>kv_calls := kv_calls st @ [AllocPagedTokenSlotsExtend p s l n True],
                   kv := k'\<rparr>)"
  by (auto simp: alloc_paged_token_slots_extend_def backup_state_def Let_def
      split: option.splits)

text \<open>The definitions that a run of the draft preprocessing on a concrete batch unfolds.\<close>

lemmas run_defs =
  draft_preprocess_decode_def list_env_def decode_world_def decode_batch_def
  example_worker_def take_free_def free_range_def blank_spec_info_def blank_req_def batch_size_def rd_def
  get_last_loc_large_page_size_large_top_k_def get_last_loc_large_page_size_top_k_1_def
  alloc_token_slots_def alloc_paged_token_slots_extend_def backup_state_def restore_state_def
  repeat_interleave_def py_slice_to_def tensor_sum_def wrap64_eval fits64_def Let_def

subsection \<open>The draft cache layout\<close>

text \<open>
  One request of the layout: within the bound no operator leaves the 64-bit range, the
  number of new pages is the ceiling, and the extend length lies between 0 and the bound.
\<close>

lemma layout_entry:
  fixes P K S p :: int
  assumes P: "1 < P" and K: "1 < K" and S: "0 \<le> S" and p0: "0 \<le> p"
    and fit: "p + (S + 2 * P) * K < 2 ^ 63"
  defines "n \<equiv> (p mod P + S + P - 1) div P"
  shows "fits64 P" and "fits64 S" and "fits64 (P * K)"
    and "wrap64 (p mod P) = p mod P"
    and "wrap64 (wrap64 (wrap64 (wrap64 (p mod P + S) + P) - 1) div P) = n"
    and "wrap64 (wrap64 (wrap64 (p div P) * P) + wrap64 (n * (P * K)))
           = p div P * P + n * (P * K)"
    and "wrap64 (p div P * P + n * (P * K) - p) = p div P * P + n * (P * K) - p"
    and "0 \<le> p div P * P + n * (P * K) - p"
    and "p div P * P + n * (P * K) - p < (S + 2 * P) * K"
proof -
  have P0: "0 < P" using P by simp
  define l where "l = p mod P"
  define M where "M = (S + 2 * P) * K"
  define Q where "Q = P * K"
  define R where "R = n * (P * K)"
  define D where "D = p div P * P"
  have l: "0 \<le> l" "l < P" using P0 by (simp_all add: l_def)
  have SP: "0 < S + 2 * P" using S P0 by simp
  have SPK: "S + 2 * P \<le> M"
    unfolding M_def using mult_left_mono [of 1 K "S + 2 * P"] SP K by simp
  have big: "p + M < 2 ^ 63" using fit by (simp add: M_def)
  have PK: "Q \<le> M"
    unfolding M_def Q_def using mult_right_mono [of P "S + 2 * P" K] S P0 K by simp
  have PK0: "0 \<le> Q" unfolding Q_def using P0 K by simp
  show "fits64 P" by (rule fits64_nonneg) (use P0 SPK big S p0 in linarith)+
  show "fits64 S" by (rule fits64_nonneg) (use P0 SPK big S p0 in linarith)+
  show "fits64 (P * K)"
    unfolding Q_def [symmetric] by (rule fits64_nonneg) (use PK0 PK big p0 in linarith)+
  have n_def': "n = (l + S + P - 1) div P" by (simp add: n_def l_def)
  have split: "l + S + P - 1 = n * P + (l + S + P - 1) mod P" by (simp add: n_def')
  have m: "0 \<le> (l + S + P - 1) mod P" "(l + S + P - 1) mod P < P" using P0 by simp_all
  have nlo: "l + S \<le> n * P" using split m by linarith
  have nhi: "n * P \<le> l + S + P - 1" using split m by linarith
  have n0: "0 \<le> n" using l S P0 by (simp add: n_def' pos_imp_zdiv_nonneg_iff)
  have nP0: "0 \<le> n * P" using n0 P0 by simp
  have nP: "n \<le> n * P" using mult_left_mono [of 1 P n] n0 P0 by simp
  have R_hi: "R < M"
  proof -
    have "n * P \<le> S + 2 * P - 1" using nhi l by linarith
    then have "n * P * K \<le> (S + 2 * P - 1) * K"
      using K by (intro mult_right_mono) simp_all
    moreover have "(S + 2 * P - 1) * K < (S + 2 * P) * K"
      using K by (simp add: algebra_simps)
    ultimately show ?thesis by (simp add: R_def M_def mult.assoc)
  qed
  have R_lo: "n * P \<le> R"
  proof -
    have "n * P * 1 \<le> n * P * K" using K nP0 by (intro mult_left_mono) simp_all
    then show ?thesis by (simp add: R_def mult.assoc)
  qed
  have d0: "0 \<le> p div P" using p0 P0 by (simp add: pos_imp_zdiv_nonneg_iff)
  have dP: "D = p - l" by (simp add: D_def l_def minus_mod_eq_div_mult)
  have dle: "p div P \<le> D"
    unfolding D_def using mult_left_mono [of 1 P "p div P"] d0 P0 by simp
  note facts = l SPK big PK PK0 nlo nhi n0 nP0 nP R_hi R_lo d0 dP dle S P0 p0
  show "wrap64 (p mod P) = p mod P"
    unfolding l_def [symmetric] by (rule wrap64_nonneg) (use facts in linarith)+
  have a1: "wrap64 (l + S) = l + S"
    by (rule wrap64_nonneg) (use facts in linarith)+
  have a2: "wrap64 (l + S + P) = l + S + P"
    by (rule wrap64_nonneg) (use facts in linarith)+
  have a3: "wrap64 (l + S + P - 1) = l + S + P - 1"
    by (rule wrap64_nonneg) (use facts in linarith)+
  have a4: "wrap64 n = n"
    by (rule wrap64_nonneg) (use facts in linarith)+
  show "wrap64 (wrap64 (wrap64 (wrap64 (p mod P + S) + P) - 1) div P) = n"
    unfolding l_def [symmetric] a1 a2 a3 n_def' [symmetric] by (rule a4)
  have b1: "wrap64 (p div P) = p div P"
    by (rule wrap64_nonneg) (use facts in linarith)+
  have b2: "wrap64 D = D"
    by (rule wrap64_nonneg) (use facts in linarith)+
  have b3: "wrap64 R = R"
    by (rule wrap64_nonneg) (use facts in linarith)+
  have b4: "wrap64 (D + R) = D + R"
    by (rule wrap64_nonneg) (use facts in linarith)+
  show "wrap64 (wrap64 (wrap64 (p div P) * P) + wrap64 (n * (P * K)))
           = p div P * P + n * (P * K)"
    unfolding b1 D_def [symmetric] R_def [symmetric] b2 b3 by (rule b4)
  show e0: "0 \<le> p div P * P + n * (P * K) - p"
    unfolding D_def [symmetric] R_def [symmetric] using facts by linarith
  show e1: "p div P * P + n * (P * K) - p < (S + 2 * P) * K"
    unfolding D_def [symmetric] R_def [symmetric] M_def [symmetric] using facts by linarith
  show "wrap64 (p div P * P + n * (P * K) - p) = p div P * P + n * (P * K) - p"
    unfolding D_def [symmetric] R_def [symmetric]
    by (rule wrap64_nonneg) (use facts in linarith)+
qed

lemma sum_list_bounded:
  fixes xs :: "int list"
  assumes "\<forall>x \<in> set xs. 0 \<le> x \<and> x < B"
  shows "0 \<le> sum_list xs \<and> sum_list xs \<le> int (length xs) * B"
  using assms
proof (induction xs)
  case Nil
  then show ?case by simp
next
  case (Cons x xs)
  then show ?case by (simp add: algebra_simps)
qed

lemma large_top_k_layout:
  assumes P: "1 < P" and K: "1 < K" and S: "0 \<le> S"
    and scal: "(S + 2 * P) * K < 2 ^ 63"
    and fit: "\<forall>prefix \<in> set sl. 0 \<le> prefix \<and> prefix + (S + 2 * P) * K < 2 ^ 63"
  shows "get_last_loc_large_page_size_large_top_k gll table rpi sl S K P =
           (let num_new = map (\<lambda>prefix. \<lceil>real_of_int (prefix mod P + S) / real_of_int P\<rceil>) sl;
                new_seq_lens = map2 (\<lambda>prefix n. prefix div P * P + n * P * K) sl num_new;
                extend_lens = map2 (\<lambda>s prefix. s - prefix) new_seq_lens sl
            in Inr (sl, new_seq_lens, gll table rpi sl, num_new, extend_lens))"
proof -
  have P0: "0 < P" using P by simp
  have c: "\<And>l. (l + S + P - 1) div P = \<lceil>real_of_int (l + S) / real_of_int P\<rceil>"
    using ceil_div_int [OF P0] by simp
  have m: "\<And>p n. p div P * P + n * P * K = p div P * P + n * (P * K)"
    by (simp add: algebra_simps)
  have zero: "(0::int) + (S + 2 * P) * K < 2 ^ 63" using scal by simp
  note sc = layout_entry(1-3) [OF P K S order_refl zero]
  have e1: "map (\<lambda>p. wrap64 (p mod P)) sl = map (\<lambda>p. p mod P) sl"
    using fit layout_entry(4) [OF P K S] by (intro map_cong refl) blast
  have e2: "map (\<lambda>l. wrap64 (wrap64 (wrap64 (wrap64 (l + S) + P) - 1) div P))
              (map (\<lambda>p. p mod P) sl)
            = map (\<lambda>p. \<lceil>real_of_int (p mod P + S) / real_of_int P\<rceil>) sl"
    unfolding map_map o_def c [symmetric]
    using fit layout_entry(5) [OF P K S] by (intro map_cong refl) blast
  have e3: "map2 (\<lambda>p n. wrap64 (wrap64 (wrap64 (p div P) * P) + wrap64 (n * (P * K)))) sl
              (map (\<lambda>p. \<lceil>real_of_int (p mod P + S) / real_of_int P\<rceil>) sl)
            = map2 (\<lambda>p n. p div P * P + n * P * K) sl
                (map (\<lambda>p. \<lceil>real_of_int (p mod P + S) / real_of_int P\<rceil>) sl)"
    unfolding zip_map2 map_map o_def zip_same_conv_map case_prod_conv fst_conv snd_conv
      c [symmetric] m
    using fit layout_entry(6) [OF P K S] by (intro map_cong refl) (simp add: case_prod_beta)
  have e4: "map2 (\<lambda>s p. wrap64 (s - p))
              (map2 (\<lambda>p n. p div P * P + n * P * K) sl
                 (map (\<lambda>p. \<lceil>real_of_int (p mod P + S) / real_of_int P\<rceil>) sl)) sl
            = map2 (\<lambda>s p. s - p)
              (map2 (\<lambda>p n. p div P * P + n * P * K) sl
                 (map (\<lambda>p. \<lceil>real_of_int (p mod P + S) / real_of_int P\<rceil>) sl)) sl"
    unfolding c [symmetric] m
    using fit layout_entry(7) [OF P K S]
    by (simp add: zip_map2 zip_map1 zip_same_conv_map o_def case_prod_beta)
  show ?thesis
    unfolding get_last_loc_large_page_size_large_top_k_def Let_def e1 e2 e3 e4
    using sc P0 by simp
qed

lemma layout_extend_sum:
  assumes P: "1 < P" and K: "1 < K" and S: "0 \<le> S"
    and fit: "\<forall>prefix \<in> set sl. 0 \<le> prefix \<and> prefix + (S + 2 * P) * K < 2 ^ 63"
    and total: "int (length sl) * ((S + 2 * P) * K) < 2 ^ 63"
  shows "tensor_sum
           (map2 (\<lambda>s prefix. s - prefix)
              (map2 (\<lambda>prefix n. prefix div P * P + n * P * K) sl
                 (map (\<lambda>prefix. \<lceil>real_of_int (prefix mod P + S) / real_of_int P\<rceil>) sl)) sl)
         = sum_list
           (map2 (\<lambda>s prefix. s - prefix)
              (map2 (\<lambda>prefix n. prefix div P * P + n * P * K) sl
                 (map (\<lambda>prefix. \<lceil>real_of_int (prefix mod P + S) / real_of_int P\<rceil>) sl)) sl)"
proof -
  have P0: "0 < P" using P by simp
  have c: "\<And>l. \<lceil>real_of_int (l + S) / real_of_int P\<rceil> = (l + S + P - 1) div P"
    using ceil_div_int [OF P0] by simp
  have m: "\<And>p n. p div P * P + n * P * K = p div P * P + n * (P * K)"
    by (simp add: algebra_simps)
  define el where "el = map (\<lambda>p. p div P * P + (p mod P + S + P - 1) div P * (P * K) - p) sl"
  have el: "map2 (\<lambda>s prefix. s - prefix)
              (map2 (\<lambda>prefix n. prefix div P * P + n * P * K) sl
                 (map (\<lambda>prefix. \<lceil>real_of_int (prefix mod P + S) / real_of_int P\<rceil>) sl)) sl = el"
    unfolding c m el_def
    by (simp add: zip_map2 zip_map1 zip_same_conv_map o_def case_prod_beta)
  have "\<forall>x \<in> set el. 0 \<le> x \<and> x < (S + 2 * P) * K"
    unfolding el_def using fit layout_entry(8,9) [OF P K S] by auto
  from sum_list_bounded [OF this]
  have "0 \<le> sum_list el" and "sum_list el \<le> int (length sl) * ((S + 2 * P) * K)"
    by (simp_all add: el_def)
  with total have "wrap64 (sum_list el) = sum_list el"
    by (intro wrap64_nonneg) linarith+
  then show ?thesis unfolding el tensor_sum_def .
qed

lemma draft_preprocess_decode_large_top_k:
  assumes P: "1 < page_size w" and K: "1 < topk w"
    and lay: "get_last_loc_large_page_size_large_top_k (e_get_last_loc env) (req_to_token st)
                (rd (heap st) (req_pool_indices (batch st))) (rd (heap st) (seq_lens (batch st)))
                (speculative_num_steps w) (topk w) (page_size w)
              = Inr (prefix_lens, new_seq_lens, last_loc, num_new, extend_lens)"
  shows "case e_alloc_extend env prefix_lens new_seq_lens last_loc (tensor_sum extend_lens)
                (kv st) of
           None \<Rightarrow> draft_preprocess_decode env w st = Inl RuntimeError
         | Some (slots, k') \<Rightarrow>
             (\<exists>st'. draft_preprocess_decode env w st = Inr st'
                \<and> kv_calls st' = kv_calls st
                     @ [AllocPagedTokenSlotsExtend prefix_lens new_seq_lens last_loc
                          (tensor_sum extend_lens) True,
                        RestoreState]
                \<and> self_extend_lens st' = extend_lens
                \<and> self_num_new_pages_per_topk st' = num_new)"
  using P K
  unfolding draft_preprocess_decode_def
  by (auto simp: lay Let_def alloc_paged_token_slots_extend_def
        backup_state_def restore_state_def repeat_interleave_def case_prod_beta
        split: option.splits)

text \<open>
  At the largest 64-bit sequence length the new sequence length wraps around.
\<close>

lemma layout_wraps_at_int64_max:
  "get_last_loc_large_page_size_large_top_k gll table rpi [9223372036854775807] 3 2 8
     = Inr ([9223372036854775807], [- 9223372036854775784],
            gll table rpi [9223372036854775807], [2], [25])"
  by (simp add: get_last_loc_large_page_size_large_top_k_def wrap64_eval fits64_def Let_def)

text \<open>
  C1 (as amended). Let \<open>page_size > 1\<close>, \<open>topk > 1\<close> and \<open>speculative_num_steps \<ge> 0\<close>,
  and let the 64-bit arithmetic have room: \<open>(S + 2 \<cdot> P) \<cdot> K < 2^63\<close>, every prefix length
  is non-negative with \<open>prefix + (S + 2 \<cdot> P) \<cdot> K < 2^63\<close>, and
  \<open>B \<cdot> (S + 2 \<cdot> P) \<cdot> K < 2^63\<close> for the number \<open>B\<close> of requests. Then the layout computes, for
  every request with prefix length \<open>prefix = seq_len\<close>:
  \<open>num_new_pages_per_topk = ceil((prefix mod P + S) / P)\<close>,
  \<open>new_seq_lens = floor(prefix / P) \<cdot> P + num_new_pages_per_topk \<cdot> P \<cdot> K\<close> and
  \<open>extend_lens = new_seq_lens - prefix\<close>; the draft preprocessing asks the allocator, in
  one paged call with backup, for the sum of the extend lengths, and raises when the
  allocator has no room. For \<open>prefix = 7\<close>, \<open>K = 2\<close>, \<open>S = 3\<close>, \<open>P = 8\<close> this gives
  \<open>ceil(10 / 8) = 2\<close> new pages per branch, a new length of 32 and an extend length of 25.
\<close>

theorem draft_cache_layout_large_topk:
  assumes P: "1 < page_size w" and K: "1 < topk w" and S: "0 \<le> speculative_num_steps w"
    and scal: "(speculative_num_steps w + 2 * page_size w) * topk w < 2 ^ 63"
    and fit: "\<forall>prefix \<in> set (rd (heap st) (seq_lens (batch st))).
                0 \<le> prefix
              \<and> prefix + (speculative_num_steps w + 2 * page_size w) * topk w < 2 ^ 63"
    and total: "int (length (rd (heap st) (seq_lens (batch st))))
                  * ((speculative_num_steps w + 2 * page_size w) * topk w) < 2 ^ 63"
  shows "(\<exists>num_new new_seq_lens extend_lens.
           num_new = map (\<lambda>prefix. \<lceil>real_of_int (prefix mod page_size w + speculative_num_steps w)
                                      / real_of_int (page_size w)\<rceil>)
                       (rd (heap st) (seq_lens (batch st)))
         \<and> new_seq_lens = map2 (\<lambda>prefix n. prefix div page_size w * page_size w
                                              + n * page_size w * topk w)
                            (rd (heap st) (seq_lens (batch st))) num_new
         \<and> extend_lens = map2 (\<lambda>s prefix. s - prefix) new_seq_lens
                            (rd (heap st) (seq_lens (batch st)))
         \<and> get_last_loc_large_page_size_large_top_k (e_get_last_loc env) (req_to_token st)
               (rd (heap st) (req_pool_indices (batch st))) (rd (heap st) (seq_lens (batch st)))
               (speculative_num_steps w) (topk w) (page_size w)
             = Inr (rd (heap st) (seq_lens (batch st)), new_seq_lens,
                    e_get_last_loc env (req_to_token st)
                      (rd (heap st) (req_pool_indices (batch st)))
                      (rd (heap st) (seq_lens (batch st))),
                    num_new, extend_lens)
         \<and> (case e_alloc_extend env (rd (heap st) (seq_lens (batch st))) new_seq_lens
                   (e_get_last_loc env (req_to_token st)
                      (rd (heap st) (req_pool_indices (batch st)))
                      (rd (heap st) (seq_lens (batch st))))
                   (sum_list extend_lens) (kv st) of
               None \<Rightarrow> draft_preprocess_decode env w st = Inl RuntimeError
             | Some (slots, k') \<Rightarrow>
                 (\<exists>st'. draft_preprocess_decode env w st = Inr st'
                    \<and> kv_calls st' = kv_calls st
                         @ [AllocPagedTokenSlotsExtend (rd (heap st) (seq_lens (batch st)))
                              new_seq_lens
                              (e_get_last_loc env (req_to_token st)
                                 (rd (heap st) (req_pool_indices (batch st)))
                                 (rd (heap st) (seq_lens (batch st))))
                              (sum_list extend_lens) True,
                            RestoreState]
                    \<and> self_extend_lens st' = extend_lens
                    \<and> self_num_new_pages_per_topk st' = num_new)))
       \<and> get_last_loc_large_page_size_large_top_k gll table rpi [7] 3 2 8
           = Inr ([7], [32], gll table rpi [7], [2], [25])"
proof -
  define sl where "sl = rd (heap st) (seq_lens (batch st))"
  define num_new where
    "num_new = map (\<lambda>prefix. \<lceil>real_of_int (prefix mod page_size w + speculative_num_steps w)
                                / real_of_int (page_size w)\<rceil>) sl"
  define new_seq_lens where
    "new_seq_lens = map2 (\<lambda>prefix n. prefix div page_size w * page_size w
                                        + n * page_size w * topk w) sl num_new"
  define extend_lens where
    "extend_lens = map2 (\<lambda>s prefix. s - prefix) new_seq_lens sl"
  have fit': "\<forall>prefix \<in> set sl.
                0 \<le> prefix
              \<and> prefix + (speculative_num_steps w + 2 * page_size w) * topk w < 2 ^ 63"
    using fit by (simp add: sl_def)
  have total': "int (length sl)
                  * ((speculative_num_steps w + 2 * page_size w) * topk w) < 2 ^ 63"
    using total by (simp add: sl_def)
  have lay: "get_last_loc_large_page_size_large_top_k (e_get_last_loc env) (req_to_token st)
               (rd (heap st) (req_pool_indices (batch st))) (rd (heap st) (seq_lens (batch st)))
               (speculative_num_steps w) (topk w) (page_size w)
             = Inr (sl, new_seq_lens,
                    e_get_last_loc env (req_to_token st)
                      (rd (heap st) (req_pool_indices (batch st))) sl,
                    num_new, extend_lens)"
    unfolding sl_def [symmetric] large_top_k_layout [OF P K S scal fit'] Let_def
      num_new_def new_seq_lens_def extend_lens_def
    by (rule refl)
  have sum: "tensor_sum extend_lens = sum_list extend_lens"
    unfolding extend_lens_def new_seq_lens_def num_new_def
    by (rule layout_extend_sum [OF P K S fit' total'])
  note run = draft_preprocess_decode_large_top_k [OF P K lay, unfolded sum]
  have general: "\<exists>num_new new_seq_lens extend_lens.
           num_new = map (\<lambda>prefix. \<lceil>real_of_int (prefix mod page_size w + speculative_num_steps w)
                                      / real_of_int (page_size w)\<rceil>)
                       (rd (heap st) (seq_lens (batch st)))
         \<and> new_seq_lens = map2 (\<lambda>prefix n. prefix div page_size w * page_size w
                                              + n * page_size w * topk w)
                            (rd (heap st) (seq_lens (batch st))) num_new
         \<and> extend_lens = map2 (\<lambda>s prefix. s - prefix) new_seq_lens
                            (rd (heap st) (seq_lens (batch st)))
         \<and> get_last_loc_large_page_size_large_top_k (e_get_last_loc env) (req_to_token st)
               (rd (heap st) (req_pool_indices (batch st))) (rd (heap st) (seq_lens (batch st)))
               (speculative_num_steps w) (topk w) (page_size w)
             = Inr (rd (heap st) (seq_lens (batch st)), new_seq_lens,
                    e_get_last_loc env (req_to_token st)
                      (rd (heap st) (req_pool_indices (batch st)))
                      (rd (heap st) (seq_lens (batch st))),
                    num_new, extend_lens)
         \<and> (case e_alloc_extend env (rd (heap st) (seq_lens (batch st))) new_seq_lens
                   (e_get_last_loc env (req_to_token st)
                      (rd (heap st) (req_pool_indices (batch st)))
                      (rd (heap st) (seq_lens (batch st))))
                   (sum_list extend_lens) (kv st) of
               None \<Rightarrow> draft_preprocess_decode env w st = Inl RuntimeError
             | Some (slots, k') \<Rightarrow>
                 (\<exists>st'. draft_preprocess_decode env w st = Inr st'
                    \<and> kv_calls st' = kv_calls st
                         @ [AllocPagedTokenSlotsExtend (rd (heap st) (seq_lens (batch st)))
                              new_seq_lens
                              (e_get_last_loc env (req_to_token st)
                                 (rd (heap st) (req_pool_indices (batch st)))
                                 (rd (heap st) (seq_lens (batch st))))
                              (sum_list extend_lens) True,
                            RestoreState]
                    \<and> self_extend_lens st' = extend_lens
                    \<and> self_num_new_pages_per_topk st' = num_new))"
    apply (rule exI [of _ num_new], rule exI [of _ new_seq_lens], rule exI [of _ extend_lens])
    unfolding sl_def [symmetric]
    using lay run
    by (simp add: num_new_def new_seq_lens_def extend_lens_def sl_def [symmetric])
  have seven: "get_last_loc_large_page_size_large_top_k gll table rpi [7] 3 2 8
           = Inr ([7], [32], gll table rpi [7], [2], [25])"
    by (simp add: get_last_loc_large_page_size_large_top_k_def wrap64_eval fits64_def Let_def)
  from general seven show ?thesis by (rule conjI)
qed

theorem draft_cache_layout_large_topk_witness:
  "1 < page_size (example_worker 2 3 8) \<and> 1 < topk (example_worker 2 3 8)
   \<and> 0 \<le> speculative_num_steps (example_worker 2 3 8)
   \<and> rd (heap (decode_world [blank_req] [7] (free_range 100 32)))
        (seq_lens (batch (decode_world [blank_req] [7] (free_range 100 32)))) = [7]
   \<and> (7 :: int) + (3 + 2 * 8) * 2 < 2 ^ 63
   \<and> (\<exists>st'. draft_preprocess_decode (list_env blank_logits blank_verify_output)
                (example_worker 2 3 8)
                (decode_world [blank_req] [7]
                   (free_range 100 32)) = Inr st'
          \<and> kv_calls st' = [AllocPagedTokenSlotsExtend [7] [32] [- 1] 25 True, RestoreState]
          \<and> self_num_new_pages_per_topk st' = [2]
          \<and> self_extend_lens st' = [25])"
proof -
  have P: "1 < page_size (example_worker 2 3 8)" and K: "1 < topk (example_worker 2 3 8)"
    and S: "0 \<le> speculative_num_steps (example_worker 2 3 8)"
    and scal: "(speculative_num_steps (example_worker 2 3 8)
                 + 2 * page_size (example_worker 2 3 8)) * topk (example_worker 2 3 8) < 2 ^ 63"
    by (simp_all add: example_worker_def)
  have fit: "\<forall>prefix \<in> set (rd (heap (decode_world [blank_req] [7] (free_range 100 32)))
                             (seq_lens (batch (decode_world [blank_req] [7]
                                                 (free_range 100 32))))).
               0 \<le> prefix
             \<and> prefix + (speculative_num_steps (example_worker 2 3 8)
                           + 2 * page_size (example_worker 2 3 8))
                          * topk (example_worker 2 3 8) < 2 ^ 63"
    by (simp add: example_worker_def decode_world_def decode_batch_def rd_def)
  have total: "int (length (rd (heap (decode_world [blank_req] [7] (free_range 100 32)))
                              (seq_lens (batch (decode_world [blank_req] [7]
                                                  (free_range 100 32))))))
                 * ((speculative_num_steps (example_worker 2 3 8)
                      + 2 * page_size (example_worker 2 3 8))
                    * topk (example_worker 2 3 8)) < 2 ^ 63"
    by (simp add: example_worker_def decode_world_def decode_batch_def rd_def)
  show ?thesis
    using draft_cache_layout_large_topk [OF P K S scal fit total,
            of "list_env blank_logits blank_verify_output"]
    by (simp add: run_defs)
qed

text \<open>
  C1 as stated fails at its own example: for \<open>prefix = 7\<close>, \<open>K = 2\<close>, \<open>S = 3\<close>, \<open>P = 8\<close>
  the extend length is 25, and the allocator is asked for 25 slots, not 9.
\<close>

theorem draft_cache_layout_prefix7_counterexample:
  "get_last_loc_large_page_size_large_top_k
       (e_get_last_loc (list_env blank_logits blank_verify_output)) [] [0] [7] 3 2 8
     = Inr ([7], [32], [- 1], [2], [25])
   \<and> map_sum id kv_calls
       (draft_preprocess_decode (list_env blank_logits blank_verify_output)
          (example_worker 2 3 8) (decode_world [blank_req] [7] (free_range 100 32)))
     = Inr [AllocPagedTokenSlotsExtend [7] [32] [- 1] 25 True, RestoreState]
   \<and> (25 :: int) \<noteq> 9"
  by (simp add: run_defs)

subsection \<open>Draft preprocessing and the allocator\<close>

text \<open>
  C5. With \<open>page_size = 1\<close> the draft preprocessing makes one allocator call,
  \<open>alloc_token_slots(B \<cdot> S \<cdot> K, backup_state=True)\<close>, where \<open>B\<close> is the batch size: it
  raises when the allocator has no room, and otherwise returns with that call and the
  restore of the backup as its only allocator calls.
\<close>

theorem draft_preprocess_page_size_1_single_alloc:
  assumes P: "page_size w = 1" and K: "0 \<le> topk w"
  shows "case e_alloc env (batch_size (batch st) * speculative_num_steps w * topk w) (kv st) of
           None \<Rightarrow> draft_preprocess_decode env w st = Inl RuntimeError
         | Some (slots, k') \<Rightarrow>
             (\<exists>st'. draft_preprocess_decode env w st = Inr st'
                \<and> kv_calls st' = kv_calls st
                     @ [AllocTokenSlots
                          (batch_size (batch st) * speculative_num_steps w * topk w) True,
                        RestoreState])"
  using P K
  unfolding draft_preprocess_decode_def Let_def
  by (auto simp: alloc_token_slots_def backup_state_def restore_state_def Let_def
        repeat_interleave_def case_prod_beta split: option.splits)

theorem draft_preprocess_page_size_1_single_alloc_witness:
  "page_size (example_worker 2 2 1) = 1 \<and> 0 \<le> topk (example_worker 2 2 1)
   \<and> (\<exists>st'. draft_preprocess_decode (list_env blank_logits blank_verify_output)
                (example_worker 2 2 1)
                (decode_world [blank_req, blank_req] [5, 9]
                   [100, 101, 102, 103, 104, 105, 106, 107, 108, 109]) = Inr st'
          \<and> kv_calls st' = [AllocTokenSlots 8 True, RestoreState]
          \<and> out_cache_loc (batch st') = [100, 101, 102, 103, 104, 105, 106, 107])"
proof -
  have P: "page_size (example_worker 2 2 1) = 1" and K: "0 \<le> topk (example_worker 2 2 1)"
    by (simp_all add: example_worker_def)
  show ?thesis
    using draft_preprocess_page_size_1_single_alloc
            [OF P K, of "list_env blank_logits blank_verify_output"
               "decode_world [blank_req, blank_req] [5, 9]
                  [100, 101, 102, 103, 104, 105, 106, 107, 108, 109]"]
    by (simp add: run_defs)
qed

lemma draft_preprocess_decode_kv:
  assumes run: "draft_preprocess_decode env w st = Inr st'"
  shows "kv st' = kv st
       \<and> (\<exists>c. kv_calls st' = kv_calls st @ [c, RestoreState] \<and> backup_requested c)"
  using run
  unfolding draft_preprocess_decode_def Let_def
  by (auto simp: bindE_Inr_iff alloc_token_slots_Inr alloc_paged_Inr restore_state_def
        get_last_loc_large_page_size_top_k_1_def case_prod_beta
        split: if_splits option.splits)

lemma draft_preprocess_decode_slots:
  assumes run: "draft_preprocess_decode env w st = Inr st'"
  shows "\<exists>slots k1 p s l n.
             (e_alloc env n (kv st) = Some (slots, k1)
                \<or> e_alloc_extend env p s l n (kv st) = Some (slots, k1))
           \<and> (let kernel = e_assign_draft_cache_locs env
                     (rd (heap st) (req_pool_indices (batch st))) (req_to_token st)
                     (rd (heap st) (seq_lens (batch st))) (self_extend_lens st')
                     (self_num_new_pages_per_topk st') slots
                     (case req_to_token st of [] \<Rightarrow> 0 | row # _ \<Rightarrow> int (length row))
                     (topk w) (speculative_num_steps w) (page_size w)
                     (e_next_power_of_2 env (batch_size (batch st)))
                     (e_next_power_of_2 env (speculative_num_steps w))
               in req_to_token st' = fst kernel
                \<and> out_cache_loc (batch st') =
                    (if page_size w > 1 \<and> topk w > 1
                     then py_slice_to (batch_size (batch st) * topk w * speculative_num_steps w)
                            (snd kernel)
                     else snd kernel))"
proof (cases "1 < page_size w \<and> 1 < topk w")
  case True
  then have ne: "page_size w \<noteq> 1" "topk w \<noteq> 1" by auto
  show ?thesis
    using run True ne
    unfolding draft_preprocess_decode_def Let_def
    apply (simp add: bindE_Inr_iff alloc_paged_Inr restore_state_def case_prod_beta
        split: if_splits option.splits)
    apply (elim conjE exE disjE; hypsubst; simp; blast)+
    done
next
  case False
  show ?thesis
    using run False
    unfolding draft_preprocess_decode_def Let_def
    apply (simp add: bindE_Inr_iff alloc_token_slots_Inr alloc_paged_Inr restore_state_def
        get_last_loc_large_page_size_top_k_1_def case_prod_beta
        split: if_splits option.splits)
    apply (elim conjE exE disjE; hypsubst; simp; blast)+
    done
qed

text \<open>
  C10. When the draft preprocessing returns, the state of the KV allocator is the state
  before the call: the function made one allocation, with a backup requested, and then
  restored the backup. The slots of that allocation went through the kernel
  \<open>assign_draft_cache_locs\<close> into the request-to-token table and into
  \<open>batch.out_cache_loc\<close>, where they stay.
\<close>

theorem draft_preprocess_decode_restores_allocator:
  assumes run: "draft_preprocess_decode env w st = Inr st'"
  shows "kv st' = kv st
       \<and> (\<exists>c. kv_calls st' = kv_calls st @ [c, RestoreState] \<and> backup_requested c)
       \<and> (\<exists>slots k1 p s l n.
             (e_alloc env n (kv st) = Some (slots, k1)
                \<or> e_alloc_extend env p s l n (kv st) = Some (slots, k1))
           \<and> (let kernel = e_assign_draft_cache_locs env
                     (rd (heap st) (req_pool_indices (batch st))) (req_to_token st)
                     (rd (heap st) (seq_lens (batch st))) (self_extend_lens st')
                     (self_num_new_pages_per_topk st') slots
                     (case req_to_token st of [] \<Rightarrow> 0 | row # _ \<Rightarrow> int (length row))
                     (topk w) (speculative_num_steps w) (page_size w)
                     (e_next_power_of_2 env (batch_size (batch st)))
                     (e_next_power_of_2 env (speculative_num_steps w))
               in req_to_token st' = fst kernel
                \<and> out_cache_loc (batch st') =
                    (if page_size w > 1 \<and> topk w > 1
                     then py_slice_to (batch_size (batch st) * topk w * speculative_num_steps w)
                            (snd kernel)
                     else snd kernel)))"
  using draft_preprocess_decode_kv [OF run] draft_preprocess_decode_slots [OF run]
  by (intro conjI) (elim conjE, assumption)+

theorem draft_preprocess_decode_restores_allocator_witness:
  "\<exists>st'. draft_preprocess_decode (list_env blank_logits blank_verify_output)
            (example_worker 2 2 1)
            (decode_world [blank_req, blank_req] [5, 9]
               [100, 101, 102, 103, 104, 105, 106, 107, 108, 109]) = Inr st'
       \<and> kv st' = [100, 101, 102, 103, 104, 105, 106, 107, 108, 109]
       \<and> out_cache_loc (batch st') = [100, 101, 102, 103, 104, 105, 106, 107]"
proof -
  have "\<exists>st'. draft_preprocess_decode (list_env blank_logits blank_verify_output)
            (example_worker 2 2 1)
            (decode_world [blank_req, blank_req] [5, 9]
               [100, 101, 102, 103, 104, 105, 106, 107, 108, 109]) = Inr st'
          \<and> out_cache_loc (batch st') = [100, 101, 102, 103, 104, 105, 106, 107]"
    by (simp add: run_defs)
  then obtain st' where
    run: "draft_preprocess_decode (list_env blank_logits blank_verify_output)
            (example_worker 2 2 1)
            (decode_world [blank_req, blank_req] [5, 9]
               [100, 101, 102, 103, 104, 105, 106, 107, 108, 109]) = Inr st'"
    and out: "out_cache_loc (batch st') = [100, 101, 102, 103, 104, 105, 106, 107]"
    by blast
  have "kv st' = kv (decode_world [blank_req, blank_req] [5, 9]
                       [100, 101, 102, 103, 104, 105, 106, 107, 108, 109])"
    using draft_preprocess_decode_restores_allocator [OF run] by blast
  then have "kv st' = [100, 101, 102, 103, 104, 105, 106, 107, 108, 109]"
    by (simp add: decode_world_def)
  with run out show ?thesis by blast
qed

subsection \<open>The entry point\<close>

text \<open>The definitions that a run of a whole step on a concrete batch unfolds.\<close>

lemmas step_defs =
  eagle_stages_def draft_def verify_def draft_forward_def forward_draft_extend_after_decode_def
  draft_preprocess_decode_def draft_preprocess_idle_def detect_nan_if_needed_def
  hot_token_remap_def reshape_permute_def capture_for_decode_def view_rows_def
  list_env_def in_place_env_def add_in_place_def asserting_mask_cleared_def
  decode_world_def decode_batch_def stale_mask_world_def grammar_verify_input_def
  example_worker_def take_free_def
  free_range_def blank_spec_info_def blank_req_def blank_logits_def blank_forward_batch_def
  blank_verify_output_def batch_size_def rd_def new_tensor_def
  alloc_token_slots_def backup_state_def restore_state_def
  repeat_interleave_def py_slice_to_def py_assert_def py_index_def index_select_def
  tensor_sum_def wrap64_eval fits64_def nan_target_world_def forward_target_extend_def
  forward_draft_extend_def
  upd_batch_def upd_spec_def is_idle_def Let_def

text \<open>
  C2 (as amended). For a batch that is not in extend mode and holds no extending
  request, the entry point calls \<open>draft\<close> on the batch, then \<open>verify\<close> on what \<open>draft\<close>
  left, and then \<open>forward_draft_extend_after_decode\<close> on what \<open>verify\<close> left exactly when
  DP attention is enabled or \<open>batch.spec_info.verified_id\<close> is not empty after the
  verification; otherwise the step ends with \<open>verify\<close>. A call that raises ends the step
  with its exception. The batch that the step leaves is the one that its last call left,
  and the values returned are those of \<open>verify\<close>.
\<close>

theorem decode_step_stages:
  assumes "\<not> e_is_extend env (forward_mode (batch st))" and "\<not> is_extend_in_batch (batch st)"
  shows "snd (forward_batch_speculative_generation env stg w st) =
           bindE (s_draft stg st) (\<lambda>(spec, st1).
           bindE (s_verify stg spec st1)
             (\<lambda>((logits_ref, verify_output, model_worker_batch, can_run_cuda_graph), st2).
           bindE (if enable_dp_attention w \<or> verified_id (spec_info (batch st2)) \<noteq> []
                  then s_forward_draft_extend_after_decode stg st2
                  else Inr st2) (\<lambda>st3.
             Inr ((logits_ref, vo_verified_id verify_output, bid model_worker_batch,
                   sum_list (accept_length_per_req_cpu verify_output), can_run_cuda_graph),
                  st3))))
       \<and> fst (forward_batch_speculative_generation env stg w st) =
           (case s_draft stg st of
              Inl e \<Rightarrow> [Draft]
            | Inr (spec, st1) \<Rightarrow>
                (case s_verify stg spec st1 of
                   Inl e \<Rightarrow> [Draft, Verify]
                 | Inr (r, st2) \<Rightarrow>
                     if enable_dp_attention w \<or> verified_id (spec_info (batch st2)) \<noteq> []
                     then [Draft, Verify, ForwardDraftExtendAfterDecode]
                     else [Draft, Verify]))"
  using assms
  by (auto simp: forward_batch_speculative_generation_def bindE_def
        split: sum.splits prod.splits)

text \<open>
  A decode batch of one request whose verification leaves a verified token: the third
  call is made, and the batch it leaves has \<open>seq_lens\<close> in the clone that
  \<open>forward_draft_extend_after_decode\<close> restores (tensor 3, the fourth of the store).
\<close>

theorem decode_step_stages_witness:
  "\<not> e_is_extend
        (list_env blank_logits
           (blank_verify_output\<lparr>vo_draft_input := blank_spec_info\<lparr>verified_id := [5]\<rparr>\<rparr>))
        (forward_mode (batch (decode_world [blank_req] [7] (free_range 100 4))))
   \<and> \<not> is_extend_in_batch (batch (decode_world [blank_req] [7] (free_range 100 4)))
   \<and> fst (forward_batch_speculative_generation
          (list_env blank_logits
             (blank_verify_output\<lparr>vo_draft_input := blank_spec_info\<lparr>verified_id := [5]\<rparr>\<rparr>))
          (eagle_stages
             (list_env blank_logits
                (blank_verify_output\<lparr>vo_draft_input := blank_spec_info\<lparr>verified_id := [5]\<rparr>\<rparr>))
             (example_worker 1 1 1))
          (example_worker 1 1 1) (decode_world [blank_req] [7] (free_range 100 4)))
     = [Draft, Verify, ForwardDraftExtendAfterDecode]
   \<and> map_sum id (\<lambda>(r, st'). (r, seq_lens (batch st'), next_ref (heap st')))
       (snd (forward_batch_speculative_generation
          (list_env blank_logits
             (blank_verify_output\<lparr>vo_draft_input := blank_spec_info\<lparr>verified_id := [5]\<rparr>\<rparr>))
          (eagle_stages
             (list_env blank_logits
                (blank_verify_output\<lparr>vo_draft_input := blank_spec_info\<lparr>verified_id := [5]\<rparr>\<rparr>))
             (example_worker 1 1 1))
          (example_worker 1 1 1) (decode_world [blank_req] [7] (free_range 100 4))))
     = Inr ((0, [], 0, 0, False), 3, 4)"
proof -
  have a: "\<not> e_is_extend
               (list_env blank_logits
                  (blank_verify_output\<lparr>vo_draft_input := blank_spec_info\<lparr>verified_id := [5]\<rparr>\<rparr>))
               (forward_mode (batch (decode_world [blank_req] [7] (free_range 100 4))))"
    and b: "\<not> is_extend_in_batch (batch (decode_world [blank_req] [7] (free_range 100 4)))"
    by (simp_all add: list_env_def decode_world_def decode_batch_def)
  show ?thesis
    using a b decode_step_stages [OF a b, of
        "eagle_stages
           (list_env blank_logits
              (blank_verify_output\<lparr>vo_draft_input := blank_spec_info\<lparr>verified_id := [5]\<rparr>\<rparr>))
           (example_worker 1 1 1)" "example_worker 1 1 1"]
    by (simp add: step_defs)
qed

text \<open>
  C2 as stated fails: on a decode batch of one request, with DP attention disabled, whose
  verification leaves no verified token (the request has finished), the step returns
  after \<open>verify\<close> and \<open>forward_draft_extend_after_decode\<close> is not called: the store
  has its three tensors, where a call of \<open>forward_draft_extend_after_decode\<close> on the
  batch that \<open>verify\<close> left would have made a fourth, the clone of \<open>seq_lens\<close>.
\<close>

theorem decode_step_skips_draft_extend_counterexample:
  "forward_mode (batch (decode_world [blank_req] [7] (free_range 100 4))) = DECODE
   \<and> fst (forward_batch_speculative_generation (list_env blank_logits blank_verify_output)
            (eagle_stages (list_env blank_logits blank_verify_output) (example_worker 1 1 1))
            (example_worker 1 1 1) (decode_world [blank_req] [7] (free_range 100 4)))
       = [Draft, Verify]
   \<and> map_sum id (\<lambda>(r, st'). (r, seq_lens (batch st'), next_ref (heap st')))
        (snd (forward_batch_speculative_generation (list_env blank_logits blank_verify_output)
            (eagle_stages (list_env blank_logits blank_verify_output) (example_worker 1 1 1))
            (example_worker 1 1 1) (decode_world [blank_req] [7] (free_range 100 4))))
       = Inr ((0, [], 0, 0, False), 0, 3)
   \<and> map_sum id (\<lambda>(r, st'). (r, seq_lens (batch st'), next_ref (heap st')))
        (bindE (draft (list_env blank_logits blank_verify_output) (example_worker 1 1 1)
                  (decode_world [blank_req] [7] (free_range 100 4))) (\<lambda>(spec, st1).
         bindE (verify (list_env blank_logits blank_verify_output) (example_worker 1 1 1)
                  spec st1) (\<lambda>((logits_ref, vo, mwb, can), st2).
         bindE (forward_draft_extend_after_decode
                  (list_env blank_logits blank_verify_output) (example_worker 1 1 1) st2)
           (\<lambda>st3. Inr ((logits_ref, vo_verified_id vo, bid mwb,
                         sum_list (accept_length_per_req_cpu vo), can), st3)))))
       = Inr ((0, [], 0, 0, False), 0, 4)"
  by (simp add: forward_batch_speculative_generation_def step_defs)

subsection \<open>The hot-token map\<close>

lemma mapE_Inr_iff: "mapE f xs = Inr ys \<longleftrightarrow> list_all2 (\<lambda>x y. f x = Inr y) xs ys"
proof (induction xs arbitrary: ys)
  case Nil
  then show ?case by auto
next
  case (Cons x xs)
  then show ?case
    by (cases ys) (auto simp: bindE_Inr_iff)
qed

lemma mapE_same: "mapE f xs = Inr xs \<longleftrightarrow> (\<forall>x \<in> set xs. f x = Inr x)"
  by (simp add: mapE_Inr_iff list_all2_same)

lemma index_select_same:
  "index_select hot row = Inr row \<longleftrightarrow> (\<forall>v \<in> set row. py_index hot v = Inr v)"
  by (simp add: index_select_def mapE_same)

text \<open>
  C3 (as amended). When the remap of an index tensor \<open>t\<close> gives \<open>r\<close>, a second
  application of the remap gives \<open>r\<close> again exactly when no map is configured or every
  entry \<open>v\<close> of \<open>r\<close> is an index of the map that the map sends to itself,
  \<open>hot_token_id[v] = v\<close>.
\<close>

theorem hot_token_remap_twice:
  assumes once: "hot_token_remap w t = Inr r"
  shows "bindE (hot_token_remap w t) (hot_token_remap w) = hot_token_remap w t
     \<longleftrightarrow> (case hot_token_id w of
           None \<Rightarrow> True
         | Some hot \<Rightarrow> \<forall>row \<in> set r. \<forall>v \<in> set row. py_index hot v = Inr v)"
  using once
  by (auto simp: hot_token_remap_def mapE_same index_select_same split: option.splits)

theorem hot_token_remap_twice_witness:
  "hot_token_remap ((example_worker 2 3 1)\<lparr>hot_token_id := Some [3, 0, 2, 7]\<rparr>) [[2, 2]]
     = Inr [[2, 2]]
   \<and> bindE (hot_token_remap ((example_worker 2 3 1)\<lparr>hot_token_id := Some [3, 0, 2, 7]\<rparr>)
              [[2, 2]])
       (hot_token_remap ((example_worker 2 3 1)\<lparr>hot_token_id := Some [3, 0, 2, 7]\<rparr>))
     = hot_token_remap ((example_worker 2 3 1)\<lparr>hot_token_id := Some [3, 0, 2, 7]\<rparr>)
          [[2, 2]]"
proof -
  have once: "hot_token_remap ((example_worker 2 3 1)\<lparr>hot_token_id := Some [3, 0, 2, 7]\<rparr>)
                [[2, 2]] = Inr [[2, 2]]"
    by (simp add: hot_token_remap_def example_worker_def index_select_def py_index_def)
  show ?thesis
    using once hot_token_remap_twice [OF once]
    by (simp add: example_worker_def py_index_def)
qed

text \<open>
  C3 as stated fails: with the map \<open>[3, 0, 2, 7]\<close> the indices \<open>[[0, 1]]\<close> become
  \<open>[[3, 0]]\<close>, and a second application gives \<open>[[7, 3]]\<close>.
\<close>

theorem hot_token_remap_not_idempotent_counterexample:
  "hot_token_remap ((example_worker 2 3 1)\<lparr>hot_token_id := Some [3, 0, 2, 7]\<rparr>) [[0, 1]]
     = Inr [[3, 0]]
   \<and> bindE (hot_token_remap ((example_worker 2 3 1)\<lparr>hot_token_id := Some [3, 0, 2, 7]\<rparr>)
              [[0, 1]])
       (hot_token_remap ((example_worker 2 3 1)\<lparr>hot_token_id := Some [3, 0, 2, 7]\<rparr>))
     = Inr [[7, 3]]
   \<and> bindE (hot_token_remap ((example_worker 2 3 1)\<lparr>hot_token_id := Some [3, 0, 2, 7]\<rparr>)
              [[0, 1]])
       (hot_token_remap ((example_worker 2 3 1)\<lparr>hot_token_id := Some [3, 0, 2, 7]\<rparr>))
     \<noteq> hot_token_remap ((example_worker 2 3 1)\<lparr>hot_token_id := Some [3, 0, 2, 7]\<rparr>)
          [[0, 1]]"
  by (simp add: hot_token_remap_def example_worker_def index_select_def py_index_def)

subsection \<open>The NaN check\<close>

lemma bindE_cong_Inr: "(\<And>x. m = Inr x \<Longrightarrow> f x = g x) \<Longrightarrow> bindE m f = bindE m g"
  by (cases m) simp_all


text \<open>
  Moving the check to the producers and the consumer changes three functions of the
  environment and no other.
\<close>

lemma nan_checked_sel:
  "e_select_top_k_tokens (nan_checked w env) = e_select_top_k_tokens env"
  "e_attn_backends (nan_checked w env) = e_attn_backends env"
  "e_softmax (nan_checked w env) = e_softmax env"
  "e_fast_topk (nan_checked w env) = e_fast_topk env"
  "e_new_draft_input (nan_checked w env) = e_new_draft_input env"
  "e_prepare_for_extend (nan_checked w env) = e_prepare_for_extend env"
  "e_get_model_worker_batch (nan_checked w env) = e_get_model_worker_batch env"
  "e_forward_batch_init_new (nan_checked w env) = e_forward_batch_init_new env"
  "e_create_idle_input (nan_checked w env) = e_create_idle_input env"
  "e_prepare_for_idle (nan_checked w env) = e_prepare_for_idle env"
  "e_batch_copy (nan_checked w env) = e_batch_copy env"
  "e_prepare_extend_after_decode (nan_checked w env) = e_prepare_extend_after_decode env"
  "e_extend_graph_can_run (nan_checked w env) = e_extend_graph_can_run env"
  "e_attn_init_forward_metadata (nan_checked w env) = e_attn_init_forward_metadata env"
  "e_prepare_for_verify (nan_checked w env) = e_prepare_for_verify env"
  "e_forward_batch_generation (nan_checked w env) = e_forward_batch_generation env"
  "e_generate_token_bitmask (nan_checked w env) = e_generate_token_bitmask env"
  "e_log_softmax (nan_checked w env) = e_log_softmax env"
  "e_fdiv (nan_checked w env) = e_fdiv env"
  "e_get_top_logprobs (nan_checked w env) = e_get_top_logprobs env"
  "e_get_token_ids_logprobs (nan_checked w env) = e_get_token_ids_logprobs env"
  by (simp_all add: nan_checked_def)

lemma nan_checked_run:
  "e_draft_runner_forward (nan_checked w env) =
     (\<lambda>fb skip st.
        bindE (e_draft_runner_forward env fb skip st) (\<lambda>(logits_output, st').
        bindE (detect_nan_if_needed w logits_output) (\<lambda>_. Inr (logits_output, st'))))"
  "e_extend_graph_replay (nan_checked w env) =
     (\<lambda>fb st.
        bindE (e_extend_graph_replay env fb st) (\<lambda>(logits_output, st').
        bindE (detect_nan_if_needed w logits_output) (\<lambda>_. Inr (logits_output, st'))))"
  "e_spec_verify (nan_checked w env) =
     (\<lambda>logits_ref p mask st.
        bindE (detect_nan_if_needed w (logits_objs st logits_ref)) (\<lambda>_.
          e_spec_verify env logits_ref p mask st))"
  by (simp_all add: nan_checked_def)

lemma capture_for_decode_checked:
  "capture_for_decode (nan_checked w env) = capture_for_decode env"
  by (intro ext) (unfold capture_for_decode_def nan_checked_sel, rule refl)

lemma forward_draft_extend_checked:
  "forward_draft_extend (nan_checked w env) w hidden next_token_ids seq_lens_cpu st
     = forward_draft_extend env w hidden next_token_ids seq_lens_cpu st"
  unfolding forward_draft_extend_def nan_checked_sel capture_for_decode_checked
    nan_checked_run Let_def
  apply (rule bindE_cong_Inr, clarify?, (simp only: case_prod_conv)?)
  apply (rule bindE_cong_Inr, clarify?, (simp only: case_prod_conv)?)
  apply (rule bindE_cong_Inr, clarify?, (simp only: case_prod_conv)?)
  apply (auto simp: bindE_def split: sum.splits)
  done

lemma draft_forward_loop_checked:
  "draft_forward_loop (nan_checked w env) w rows n i ls st
     = draft_forward_loop env w rows n i ls st"
proof (induction n arbitrary: i ls st)
  case 0
  show ?case by simp
next
  case (Suc n)
  show ?case
    unfolding draft_forward_loop.simps nan_checked_sel nan_checked_run Let_def Suc.IH
    by (auto simp: bindE_def split: sum.splits prod.splits)
qed

lemma draft_forward_checked:
  "draft_forward (nan_checked w env) w fb st = draft_forward env w fb st"
  unfolding draft_forward_def draft_forward_loop_checked ..

lemma forward_draft_extend_after_decode_checked:
  "forward_draft_extend_after_decode (nan_checked w env) w st
     = forward_draft_extend_after_decode env w st"
  unfolding forward_draft_extend_after_decode_def nan_checked_sel capture_for_decode_checked
    nan_checked_run Let_def
  apply (rule bindE_cong_Inr, clarify?, (simp only: case_prod_conv)?)
  apply (rule bindE_cong_Inr, clarify?, (simp only: case_prod_conv)?)
  apply (rule bindE_cong_Inr, clarify?, (simp only: case_prod_conv)?)
  apply (rule bindE_cong_Inr, clarify?, (simp only: case_prod_conv)?)
  apply (rule bindE_cong_Inr, clarify?, (simp only: case_prod_conv)?)
  apply (auto simp: bindE_def split: sum.splits)
  done

lemma add_logprob_values_checked:
  "add_logprob_values (nan_checked w env) = add_logprob_values env"
  by (intro ext) (unfold add_logprob_values_def nan_checked_sel, rule refl)

lemma verify_checked:
  "verify (nan_checked w env) w spec st = verify env w spec st"
  unfolding verify_def nan_checked_sel nan_checked_run add_logprob_values_checked Let_def
  apply (rule bindE_cong_Inr, clarify?, (simp only: case_prod_conv)?)
  apply (rule bindE_cong_Inr, clarify?, (simp only: case_prod_conv)?)
  apply (rule bindE_cong_Inr, clarify?, (simp only: case_prod_conv)?)
  apply (rule bindE_cong_Inr, clarify?, (simp only: case_prod_conv)?)
  apply (rule bindE_cong_Inr, clarify?, (simp only: case_prod_conv)?)
  apply (rule bindE_cong_Inr, clarify?, (simp only: case_prod_conv)?)
  apply (rule bindE_cong_Inr, clarify?, (simp only: case_prod_conv)?)
  apply (simp add: upd_spec_def)
  done

text \<open>
  C4 (as amended). The NaN check raises (a \<open>ValueError\<close>) if and only if NaN detection is
  enabled and some entry of \<open>next_token_logits\<close> is NaN; with detection disabled it
  raises nothing. It is applied to the logits that the draft model produces in
  \<open>forward_draft_extend\<close>, in every step of \<open>draft_forward\<close> that runs the draft model and
  in \<open>forward_draft_extend_after_decode\<close> (with and without the CUDA graph), and to the
  logits of the target model in \<open>verify\<close> before \<open>spec_info.verify\<close> reads them: each of the
  four methods does the same when the draft model runner, the CUDA graph runner of the
  draft extend and \<open>spec_info.verify\<close> make the check themselves.
\<close>

theorem nan_check_raises_iff_where_applied:
  "detect_nan_if_needed w logits_output =
     (if enable_nan_detection w
         \<and> (\<exists>row \<in> set (next_token_logits logits_output). \<exists>x \<in> set row. x = NaN)
      then Inl ValueError else Inr ())
   \<and> (\<not> enable_nan_detection w \<longrightarrow> detect_nan_if_needed w logits_output = Inr ())
   \<and> forward_draft_extend (nan_checked w env) w = forward_draft_extend env w
   \<and> draft_forward (nan_checked w env) w = draft_forward env w
   \<and> verify (nan_checked w env) w = verify env w
   \<and> forward_draft_extend_after_decode (nan_checked w env) w
       = forward_draft_extend_after_decode env w"
proof -
  have "\<And>x. isnan x \<longleftrightarrow> x = NaN"
    by (case_tac x) simp_all
  then have helper: "detect_nan_if_needed w logits_output =
     (if enable_nan_detection w
         \<and> (\<exists>row \<in> set (next_token_logits logits_output). \<exists>x \<in> set row. x = NaN)
      then Inl ValueError else Inr ())
   \<and> (\<not> enable_nan_detection w \<longrightarrow> detect_nan_if_needed w logits_output = Inr ())"
    by (auto simp: detect_nan_if_needed_def Let_def list_ex_iff)
  have sites: "forward_draft_extend (nan_checked w env) w = forward_draft_extend env w"
    "draft_forward (nan_checked w env) w = draft_forward env w"
    "verify (nan_checked w env) w = verify env w"
    "forward_draft_extend_after_decode (nan_checked w env) w
       = forward_draft_extend_after_decode env w"
    by (intro ext forward_draft_extend_checked draft_forward_checked verify_checked
          forward_draft_extend_after_decode_checked)+
  from helper sites show ?thesis by (intro conjI) (elim conjE, assumption)+
qed

text \<open>
  The check at work: the helper on logits with and without a NaN, with detection enabled
  and disabled, and a NaN in the logits of \<open>forward_draft_extend\<close>, of \<open>verify\<close> and of
  \<open>forward_draft_extend_after_decode\<close>, which ends each of them with a \<open>ValueError\<close>
  when detection is enabled and passes in \<open>verify\<close> when it is disabled.
\<close>

theorem nan_check_raises_iff_where_applied_witness:
  "detect_nan_if_needed (example_worker 2 3 1)
       (blank_logits\<lparr>next_token_logits := [[Num 1, Num 2], [Num 0, NaN]]\<rparr>) = Inl ValueError
   \<and> detect_nan_if_needed (example_worker 2 3 1)
       (blank_logits\<lparr>next_token_logits := [[Num 1, Num 2], [Num 0, Num 3]]\<rparr>) = Inr ()
   \<and> detect_nan_if_needed ((example_worker 2 3 1)\<lparr>enable_nan_detection := False\<rparr>)
       (blank_logits\<lparr>next_token_logits := [[Num 1, Num 2], [Num 0, NaN]]\<rparr>) = Inr ()
   \<and> forward_draft_extend
       (nan_checked (example_worker 2 2 1)
          (list_env (blank_logits\<lparr>next_token_logits := [[Num 0, NaN]]\<rparr>) blank_verify_output))
       (example_worker 2 2 1) [] [5] None (decode_world [blank_req] [7] (free_range 100 4))
     = Inl ValueError
   \<and> forward_draft_extend
       (list_env (blank_logits\<lparr>next_token_logits := [[Num 0, NaN]]\<rparr>) blank_verify_output)
       (example_worker 2 2 1) [] [5] None (decode_world [blank_req] [7] (free_range 100 4))
     = Inl ValueError
   \<and> verify (list_env blank_logits blank_verify_output) (example_worker 2 2 1)
       grammar_verify_input
       ((decode_world [blank_req] [7] (free_range 100 4))
          \<lparr>logits_objs := (\<lambda>r. blank_logits\<lparr>next_token_logits := [[Num 0, NaN]]\<rparr>)\<rparr>)
     = Inl ValueError
   \<and> map_sum id (\<lambda>(r, st'). forward_mode (batch st'))
       (verify (list_env blank_logits blank_verify_output)
          ((example_worker 2 2 1)\<lparr>enable_nan_detection := False\<rparr>) grammar_verify_input
          ((decode_world [blank_req] [7] (free_range 100 4))
             \<lparr>logits_objs := (\<lambda>r. blank_logits\<lparr>next_token_logits := [[Num 0, NaN]]\<rparr>)\<rparr>))
     = Inr DECODE
   \<and> forward_draft_extend_after_decode
       (list_env (blank_logits\<lparr>next_token_logits := [[Num 0, NaN]]\<rparr>) blank_verify_output)
       (example_worker 2 2 1) (decode_world [blank_req] [7] (free_range 100 4))
     = Inl ValueError"
  using nan_check_raises_iff_where_applied [of "example_worker 2 3 1"
              "blank_logits\<lparr>next_token_logits := [[Num 1, Num 2], [Num 0, NaN]]\<rparr>"
              "list_env (blank_logits\<lparr>next_token_logits := [[Num 0, NaN]]\<rparr>)
                 blank_verify_output"]
    nan_check_raises_iff_where_applied [of "example_worker 2 3 1"
              "blank_logits\<lparr>next_token_logits := [[Num 1, Num 2], [Num 0, Num 3]]\<rparr>"
              "list_env blank_logits blank_verify_output"]
    nan_check_raises_iff_where_applied
      [of "(example_worker 2 3 1)\<lparr>enable_nan_detection := False\<rparr>"
          "blank_logits\<lparr>next_token_logits := [[Num 1, Num 2], [Num 0, NaN]]\<rparr>"
          "list_env blank_logits blank_verify_output"]
    nan_check_raises_iff_where_applied [of "example_worker 2 2 1" blank_logits
              "list_env (blank_logits\<lparr>next_token_logits := [[Num 0, NaN]]\<rparr>)
                 blank_verify_output"]
  by (simp add: step_defs)

text \<open>
  C4 as stated fails for the target extend: the logits that the target model produces in
  \<open>forward_target_extend\<close> are handed on without the check. With detection enabled and
  a NaN in these logits, \<open>forward_target_extend\<close> and the whole extend step return, and
  the logits returned hold the NaN.
\<close>

theorem target_extend_logits_unchecked_counterexample:
  "enable_nan_detection (example_worker 2 2 1)
   \<and> forward_mode (batch nan_target_world) = EXTEND
   \<and> map_sum id (\<lambda>((logits_ref, r), st'). next_token_logits (logits_objs st' logits_ref))
       (forward_target_extend (list_env blank_logits blank_verify_output)
          (example_worker 2 2 1) nan_target_world)
     = Inr [[Num 0, NaN]]
   \<and> fst (forward_batch_speculative_generation (list_env blank_logits blank_verify_output)
            (eagle_stages (list_env blank_logits blank_verify_output) (example_worker 2 2 1))
            (example_worker 2 2 1) nan_target_world)
     = [ForwardTargetExtend, ForwardDraftExtend]
   \<and> map_sum id (\<lambda>((logits_ref, r), st'). next_token_logits (logits_objs st' logits_ref))
       (snd (forward_batch_speculative_generation (list_env blank_logits blank_verify_output)
               (eagle_stages (list_env blank_logits blank_verify_output)
                  (example_worker 2 2 1))
               (example_worker 2 2 1) nan_target_world))
     = Inr [[Num 0, NaN]]"
  by (simp add: forward_batch_speculative_generation_def step_defs)

subsection \<open>The attention backend\<close>

text \<open>
  C8 (as amended). \<open>init_attention_backend\<close> raises a \<open>ValueError\<close> exactly for the
  kinds outside \<open>{flashinfer, triton, fa3, flashmla}\<close>, \<open>flashinfer-mla\<close> among them.
  For \<open>triton\<close>, \<open>fa3\<close> and \<open>flashmla\<close> it returns with the matching multi-step draft
  backend. For \<open>flashinfer\<close> it reads \<open>use_mla_backend\<close> from the global server
  arguments: when the key is missing, the read raises a \<open>KeyError\<close>; when it is there,
  the function returns with the FlashInfer multi-step draft backend, or with the
  FlashInfer MLA one when the flag is set.
\<close>

theorem init_attention_backend_kinds:
  "(init_attention_backend gsa w = Inl ValueError
      \<longleftrightarrow> attention_backend w \<notin> {''flashinfer'', ''triton'', ''fa3'', ''flashmla''})
   \<and> (attention_backend w = ''flashinfer'' \<longrightarrow>
        init_attention_backend gsa w =
          (case gsa ''use_mla_backend'' of
             None \<Rightarrow> Inl KeyError
           | Some mla \<Rightarrow>
               Inr \<lparr>has_prefill_wrapper_verify = True,
                    draft_extend_attn_backend =
                      Some (if mla then FlashInferMLAAttnBackend else FlashInferAttnBackend),
                    draft_attn_backend =
                      (if mla
                       then FlashInferMLAMultiStepDraftBackend (topk w) (speculative_num_steps w)
                       else FlashInferMultiStepDraftBackend (topk w) (speculative_num_steps w))\<rparr>))
   \<and> (attention_backend w = ''triton'' \<longrightarrow>
        init_attention_backend gsa w =
          Inr \<lparr>has_prefill_wrapper_verify = False,
               draft_extend_attn_backend = Some TritonAttnBackend,
               draft_attn_backend =
                 TritonMultiStepDraftBackend (topk w) (speculative_num_steps w)\<rparr>)
   \<and> (attention_backend w = ''fa3'' \<longrightarrow>
        init_attention_backend gsa w =
          Inr \<lparr>has_prefill_wrapper_verify = False,
               draft_extend_attn_backend = Some FlashAttentionBackend,
               draft_attn_backend =
                 FlashAttentionMultiStepBackend (topk w) (speculative_num_steps w)\<rparr>)
   \<and> (attention_backend w = ''flashmla'' \<longrightarrow>
        init_attention_backend gsa w =
          Inr \<lparr>has_prefill_wrapper_verify = False,
               draft_extend_attn_backend = None,
               draft_attn_backend =
                 FlashMLAMultiStepDraftBackend (topk w) (speculative_num_steps w)\<rparr>)"
  by (auto simp: init_attention_backend_def split: option.splits)

theorem init_attention_backend_kinds_witness:
  "init_attention_backend [''use_mla_backend'' \<mapsto> True] (example_worker 2 3 1)
     = Inr \<lparr>has_prefill_wrapper_verify = True,
            draft_extend_attn_backend = Some FlashInferMLAAttnBackend,
            draft_attn_backend = FlashInferMLAMultiStepDraftBackend 2 3\<rparr>
   \<and> init_attention_backend [''use_mla_backend'' \<mapsto> True]
       ((example_worker 2 3 1)\<lparr>attention_backend := ''flashmla''\<rparr>)
     = Inr \<lparr>has_prefill_wrapper_verify = False, draft_extend_attn_backend = None,
            draft_attn_backend = FlashMLAMultiStepDraftBackend 2 3\<rparr>
   \<and> init_attention_backend [''use_mla_backend'' \<mapsto> True]
       ((example_worker 2 3 1)\<lparr>attention_backend := ''sdpa''\<rparr>) = Inl ValueError"
  using init_attention_backend_kinds
          [of "[''use_mla_backend'' \<mapsto> True]" "example_worker 2 3 1"]
    init_attention_backend_kinds
          [of "[''use_mla_backend'' \<mapsto> True]"
              "(example_worker 2 3 1)\<lparr>attention_backend := ''flashmla''\<rparr>"]
    init_attention_backend_kinds
          [of "[''use_mla_backend'' \<mapsto> True]"
              "(example_worker 2 3 1)\<lparr>attention_backend := ''sdpa''\<rparr>"]
  by (simp add: example_worker_def)

text \<open>
  C8 as stated fails: the kind \<open>flashinfer-mla\<close> raises a \<open>ValueError\<close>, also when the
  MLA backend is in use.
\<close>

theorem init_attention_backend_flashinfer_mla_counterexample:
  "init_attention_backend [''use_mla_backend'' \<mapsto> True]
     ((example_worker 2 3 1)\<lparr>attention_backend := ''flashinfer-mla''\<rparr>) = Inl ValueError"
  by (simp add: init_attention_backend_def example_worker_def)

subsection \<open>Verification and the vocabulary mask\<close>



subsection \<open>The draft extend after a decode step\<close>

text \<open>
  What the last four assignments of \<open>forward_draft_extend_after_decode\<close> restore: when
  the function returns, \<open>batch.return_logprob\<close> has its value on entry and
  \<open>batch.seq_lens\<close> holds the entries it held on entry (in the clone), while
  \<open>batch.req_pool_indices\<close> and \<open>batch.spec_info.accept_length\<close> are bound to the tensor
  objects they were bound to on entry, whatever these hold by then. (When the batch was
  not idle and had no verified token, the function worked on a copy and the batch has
  all the fields it had on entry.)
\<close>

lemma draft_extend_after_decode_rebinds:
  assumes run: "forward_draft_extend_after_decode env w st = Inr st'"
  shows "req_pool_indices (batch st') = req_pool_indices (batch st)
       \<and> accept_length (spec_info (batch st')) = accept_length (spec_info (batch st))
       \<and> return_logprob (batch st') = return_logprob (batch st)
       \<and> (if \<not> is_idle (forward_mode (batch st)) \<and> verified_id (spec_info (batch st)) = []
          then batch st' = batch st
          else rd (heap st') (seq_lens (batch st')) = rd (heap st) (seq_lens (batch st)))"
  using run
  unfolding forward_draft_extend_after_decode_def Let_def
  by (auto simp: bindE_Inr_iff case_prod_beta new_tensor_def rd_def split: if_splits)

text \<open>
  C6. The claim is what the code sets out to do (``Backup fields that will be modified
  in-place'') and does for \<open>seq_lens\<close>, which it clones, and for \<open>return_logprob\<close>; for
  \<open>accept_length\<close> (and \<open>req_pool_indices\<close>) the backup is the reference to the tensor
  itself, so a change in place survives the restore. On a decode batch of two requests
  with \<open>seq_lens = [5, 9]\<close> and \<open>accept_length = [0, 0]\<close>, with a
  \<open>prepare_extend_after_decode\<close> that adds 1 to \<open>accept_length\<close> in place, the function
  returns with \<open>seq_lens = [5, 9]\<close> and \<open>accept_length = [1, 1]\<close>.
\<close>

theorem draft_extend_after_decode_in_place_change_survives:
  "(map_option (rd (heap (decode_world [blank_req, blank_req] [5, 9] (free_range 100 4))))
      (accept_length (spec_info (batch (decode_world [blank_req, blank_req] [5, 9]
                                          (free_range 100 4))))),
    rd (heap (decode_world [blank_req, blank_req] [5, 9] (free_range 100 4)))
      (seq_lens (batch (decode_world [blank_req, blank_req] [5, 9] (free_range 100 4)))))
     = (Some [0, 0], [5, 9])
   \<and> map_sum id
       (\<lambda>st'. (map_option (rd (heap st')) (accept_length (spec_info (batch st'))),
               rd (heap st') (seq_lens (batch st'))))
       (forward_draft_extend_after_decode in_place_env (example_worker 2 2 1)
          (decode_world [blank_req, blank_req] [5, 9] (free_range 100 4)))
     = Inr (Some [1, 1], [5, 9])"
  by (simp add: step_defs)

subsection \<open>Logprobs of the accepted tokens\<close>

lemma py_index_nonneg:
  assumes "py_index xs i = Inr x" and "0 \<le> i"
  shows "nat i < length xs \<and> x = xs ! nat i"
  using assms by (auto simp: py_index_def split: if_splits)

lemma attach_tokens_spec:
  assumes "attach_tokens lo vids n r pt = Inr (r', pt')" and "0 \<le> pt"
  shows "pt' = pt + int n
       \<and> (if req_return_logprob r
          then output_token_logprobs_val r' =
                 output_token_logprobs_val r
                   @ map (\<lambda>k. next_token_logprobs lo ! k) [nat pt ..< nat pt + n]
             \<and> output_token_logprobs_idx r' =
                 output_token_logprobs_idx r @ map (\<lambda>k. vids ! k) [nat pt ..< nat pt + n]
          else r' = r)"
  using assms
proof (induction n arbitrary: r pt)
  case 0
  then show ?case by simp
next
  case (Suc n)
  from Suc.prems obtain r1 where
    step: "(if req_return_logprob r
        then bindE (py_index (next_token_logprobs lo) pt) (\<lambda>lp.
             bindE (py_index vids pt) (\<lambda>vid.
               let r1 = r\<lparr>output_token_logprobs_val := output_token_logprobs_val r @ [lp],
                          output_token_logprobs_idx := output_token_logprobs_idx r @ [vid]\<rparr>
               in if top_logprobs_num r1 > 0
                  then bindE (py_index (next_token_top_logprobs_val lo) pt) (\<lambda>tv.
                       bindE (py_index (next_token_top_logprobs_idx lo) pt) (\<lambda>ti.
                         Inr (r1\<lparr>output_top_logprobs_val := output_top_logprobs_val r1 @ [tv],
                                  output_top_logprobs_idx := output_top_logprobs_idx r1 @ [ti]\<rparr>)))
                  else Inr r1))
        else Inr r) = Inr r1"
    and rest: "attach_tokens lo vids n r1 (pt + 1) = Inr (r', pt')"
    by (auto simp: bindE_Inr_iff)
  have pt1: "0 \<le> pt + 1" using Suc.prems by simp
  note ih = Suc.IH [OF rest pt1]
  have natpt: "nat (pt + 1) = Suc (nat pt)" using Suc.prems by simp
  show ?case
  proof (cases "req_return_logprob r")
    case False
    with step have "r1 = r" by simp
    with ih False show ?thesis by simp
  next
    case True
    with step obtain lp vid where
      lp: "py_index (next_token_logprobs lo) pt = Inr lp" and
      vid: "py_index vids pt = Inr vid" and
      r1v: "output_token_logprobs_val r1 = output_token_logprobs_val r @ [lp]" and
      r1i: "output_token_logprobs_idx r1 = output_token_logprobs_idx r @ [vid]" and
      r1r: "req_return_logprob r1"
      by (auto simp: bindE_Inr_iff Let_def split: if_splits)
    from py_index_nonneg [OF lp] Suc.prems have lp': "lp = next_token_logprobs lo ! nat pt"
      by simp
    from py_index_nonneg [OF vid] Suc.prems have vid': "vid = vids ! nat pt"
      by simp
    have upt: "[nat pt ..< nat pt + Suc n] = nat pt # [Suc (nat pt) ..< Suc (nat pt) + n]"
      by (simp add: upt_conv_Cons)
    have X: "pt' = pt + 1 + int n
       \<and> output_token_logprobs_val r' =
            output_token_logprobs_val r1
              @ map (\<lambda>k. next_token_logprobs lo ! k) [nat (pt + 1) ..< nat (pt + 1) + n]
       \<and> output_token_logprobs_idx r' =
            output_token_logprobs_idx r1 @ map (\<lambda>k. vids ! k) [nat (pt + 1) ..< nat (pt + 1) + n]"
      using ih by (simp only: r1r if_True)
    have p: "pt' = pt + int (Suc n)" using X by simp
    have v: "output_token_logprobs_val r' =
               output_token_logprobs_val r
                 @ map (\<lambda>k. next_token_logprobs lo ! k) [nat pt ..< nat pt + Suc n]"
    proof -
      have "output_token_logprobs_val r' =
              (output_token_logprobs_val r @ [next_token_logprobs lo ! nat pt])
                @ map (\<lambda>k. next_token_logprobs lo ! k) [Suc (nat pt) ..< Suc (nat pt) + n]"
        using X by (simp only: r1v lp' natpt)
      also have "\<dots> = output_token_logprobs_val r
                 @ map (\<lambda>k. next_token_logprobs lo ! k)
                     (nat pt # [Suc (nat pt) ..< Suc (nat pt) + n])"
        by (simp only: append_assoc append_Cons append_Nil list.map)
      finally show ?thesis by (simp only: upt)
    qed
    have x: "output_token_logprobs_idx r' =
               output_token_logprobs_idx r @ map (\<lambda>k. vids ! k) [nat pt ..< nat pt + Suc n]"
    proof -
      have "output_token_logprobs_idx r' =
              (output_token_logprobs_idx r @ [vids ! nat pt])
                @ map (\<lambda>k. vids ! k) [Suc (nat pt) ..< Suc (nat pt) + n]"
        using X by (simp only: r1i vid' natpt)
      also have "\<dots> = output_token_logprobs_idx r
                 @ map (\<lambda>k. vids ! k) (nat pt # [Suc (nat pt) ..< Suc (nat pt) + n])"
        by (simp only: append_assoc append_Cons append_Nil list.map)
      finally show ?thesis by (simp only: upt)
    qed
    from p v x show ?thesis
      by (simp only: True if_True simp_thms)
  qed
qed

lemma attach_reqs_spec:
  assumes "attach_reqs lo vids rs ns pt = Inr (rs', pt')" and "0 \<le> pt"
  shows "length rs' = length rs \<and> length ns = length rs
       \<and> pt' = pt + int (sum_list (map nat ns))
       \<and> (\<forall>i < length rs.
            if req_return_logprob (rs ! i)
            then output_token_logprobs_val (rs' ! i) =
                   output_token_logprobs_val (rs ! i)
                     @ map (\<lambda>k. next_token_logprobs lo ! k)
                         [nat pt + sum_list (map nat (take i ns))
                            ..< nat pt + sum_list (map nat (take i ns)) + nat (ns ! i)]
               \<and> output_token_logprobs_idx (rs' ! i) =
                   output_token_logprobs_idx (rs ! i)
                     @ map (\<lambda>k. vids ! k)
                         [nat pt + sum_list (map nat (take i ns))
                            ..< nat pt + sum_list (map nat (take i ns)) + nat (ns ! i)]
            else rs' ! i = rs ! i)"
  using assms
proof (induction lo vids rs ns pt arbitrary: rs' pt' rule: attach_reqs.induct)
  case (1 lo vids pt)
  then show ?case by simp
next
  case (2 lo vids r rs n ns pt)
  from "2.prems" obtain r1 pt1 rs1 where
    one: "attach_tokens lo vids (nat n) r pt = Inr (r1, pt1)" and
    rest: "attach_reqs lo vids rs ns pt1 = Inr (rs1, pt')" and
    rs': "rs' = r1 # rs1"
    by (auto simp: bindE_Inr_iff)
  note h1 = attach_tokens_spec [OF one "2.prems"(2)]
  from h1 have pt1: "pt1 = pt + int (nat n)" by simp
  then have pt1pos: "0 \<le> pt1" using "2.prems"(2) by simp
  have natpt1: "nat pt1 = nat pt + nat n"
    using "2.prems"(2) by (simp add: pt1 nat_add_distrib)
  note ih = "2.IH" [OF rest pt1pos]
  show ?case
  proof (intro conjI allI impI)
    show "length rs' = length (r # rs)" using ih rs' by simp
    show "length (n # ns) = length (r # rs)" using ih by simp
    show "pt' = pt + int (sum_list (map nat (n # ns)))" using ih pt1 by simp
  next
    fix i assume i: "i < length (r # rs)"
    show "if req_return_logprob ((r # rs) ! i)
            then output_token_logprobs_val (rs' ! i) =
                   output_token_logprobs_val ((r # rs) ! i)
                     @ map (\<lambda>k. next_token_logprobs lo ! k)
                         [nat pt + sum_list (map nat (take i (n # ns)))
                            ..< nat pt + sum_list (map nat (take i (n # ns))) + nat ((n # ns) ! i)]
               \<and> output_token_logprobs_idx (rs' ! i) =
                   output_token_logprobs_idx ((r # rs) ! i)
                     @ map (\<lambda>k. vids ! k)
                         [nat pt + sum_list (map nat (take i (n # ns)))
                            ..< nat pt + sum_list (map nat (take i (n # ns))) + nat ((n # ns) ! i)]
            else rs' ! i = (r # rs) ! i"
    proof (cases i)
      case 0
      with h1 rs' show ?thesis by simp
    next
      case (Suc j)
      with i have j: "j < length rs" by simp
      from ih j have
        "if req_return_logprob (rs ! j)
            then output_token_logprobs_val (rs1 ! j) =
                   output_token_logprobs_val (rs ! j)
                     @ map (\<lambda>k. next_token_logprobs lo ! k)
                         [nat pt1 + sum_list (map nat (take j ns))
                            ..< nat pt1 + sum_list (map nat (take j ns)) + nat (ns ! j)]
               \<and> output_token_logprobs_idx (rs1 ! j) =
                   output_token_logprobs_idx (rs ! j)
                     @ map (\<lambda>k. vids ! k)
                         [nat pt1 + sum_list (map nat (take j ns))
                            ..< nat pt1 + sum_list (map nat (take j ns)) + nat (ns ! j)]
            else rs1 ! j = rs ! j"
        by blast
      then show ?thesis
        using Suc rs' by (simp add: natpt1 add.assoc)
    qed
  qed
next
  case (3 lo vids n ns pt)
  then show ?case by simp
next
  case (4 lo vids r rs pt)
  then show ?case by simp
qed


lemma index_select_spec:
  assumes "index_select xs idx = Inr ys"
  shows "length ys = length idx \<and> (\<forall>j < length idx. py_index xs (idx ! j) = Inr (ys ! j))"
  using assms
  by (auto simp: index_select_def mapE_Inr_iff list_all2_conv_all_nth)

lemma gather_rows_spec:
  assumes "gather_rows rows ids = Inr sel"
  shows "length sel = length ids
       \<and> (\<forall>j < length ids. j < length rows \<and> py_index (rows ! j) (ids ! j) = Inr (sel ! j))"
proof -
  from assms have all2:
    "list_all2 (\<lambda>x y. (case x of (i, t) \<Rightarrow>
                          bindE (py_index rows (int i)) (\<lambda>row. py_index row t)) = Inr y)
       (zip [0..<length ids] ids) sel"
    by (simp add: gather_rows_def mapE_Inr_iff)
  then have len: "length sel = length ids"
    by (auto dest: list_all2_lengthD)
  have "j < length rows \<and> py_index (rows ! j) (ids ! j) = Inr (sel ! j)"
    if j: "j < length ids" for j
  proof -
    from list_all2_nthD [OF all2, of j] j
    have "bindE (py_index rows (int j)) (\<lambda>row. py_index row (ids ! j)) = Inr (sel ! j)"
      by simp
    then obtain row where row: "py_index rows (int j) = Inr row"
      and v: "py_index row (ids ! j) = Inr (sel ! j)"
      by (auto simp: bindE_Inr_iff)
    from py_index_nonneg [OF row] have "j < length rows" "row = rows ! j" by simp_all
    with v show ?thesis by simp
  qed
  with len show ?thesis by blast
qed

text \<open>
  C7 (as amended). When \<open>add_logprob_values\<close> returns, the logprob at every flat index
  \<open>j\<close> is \<open>log_softmax(logits[j] / T[b(j)])\<close> at the verified token id, with
  \<open>b(j) = accepted_indices[j] // num_draft_tokens\<close>; the running index \<open>pt\<close> advances
  by \<open>accept_length[b] + 1\<close> for every request \<open>b\<close>; a request that asked for logprobs
  gets the \<open>accept_length[b] + 1\<close> logprobs and token ids at the flat indices from its
  offset on appended to its output lists, and a request that did not is left as it was.
\<close>

theorem add_logprob_values_attaches:
  assumes run: "add_logprob_values env res st = Inr (pt, st')"
  shows "length (next_token_logprobs (logits_objs st' (vo_logits_output res)))
           = length (vo_verified_id res)
       \<and> (\<forall>j < length (vo_verified_id res).
            \<exists>T. py_index (temperatures (batch st))
                   (accepted_indices res ! j div draft_token_num (spec_info (batch st))) = Inr T
               \<and> py_index
                   (e_log_softmax env
                      (map (\<lambda>x. e_fdiv env x T)
                         (next_token_logits (logits_objs st (vo_logits_output res)) ! j)))
                   (vo_verified_id res ! j)
                 = Inr (next_token_logprobs (logits_objs st' (vo_logits_output res)) ! j))
       \<and> length (reqs (batch st')) = length (reqs (batch st))
       \<and> length (accept_length_per_req_cpu res) = length (reqs (batch st))
       \<and> pt = int (sum_list (map (\<lambda>a. nat (a + 1)) (accept_length_per_req_cpu res)))
       \<and> (\<forall>i < length (reqs (batch st)).
            if req_return_logprob (reqs (batch st) ! i)
            then output_token_logprobs_val (reqs (batch st') ! i) =
                   output_token_logprobs_val (reqs (batch st) ! i)
                     @ map (\<lambda>k. next_token_logprobs (logits_objs st' (vo_logits_output res)) ! k)
                         [sum_list (map (\<lambda>a. nat (a + 1)) (take i (accept_length_per_req_cpu res)))
                            ..< sum_list (map (\<lambda>a. nat (a + 1))
                                            (take i (accept_length_per_req_cpu res)))
                                + nat (accept_length_per_req_cpu res ! i + 1)]
               \<and> output_token_logprobs_idx (reqs (batch st') ! i) =
                   output_token_logprobs_idx (reqs (batch st) ! i)
                     @ map (\<lambda>k. vo_verified_id res ! k)
                         [sum_list (map (\<lambda>a. nat (a + 1)) (take i (accept_length_per_req_cpu res)))
                            ..< sum_list (map (\<lambda>a. nat (a + 1))
                                            (take i (accept_length_per_req_cpu res)))
                                + nat (accept_length_per_req_cpu res ! i + 1)]
            else reqs (batch st') ! i = reqs (batch st) ! i)"
proof -
  define lo where "lo = logits_objs st (vo_logits_output res)"
  define D where "D = draft_token_num (spec_info (batch st))"
  define acc where "acc = accepted_indices res"
  define ids where "ids = vo_verified_id res"
  define ns where "ns = map (\<lambda>accept. accept + 1) (accept_length_per_req_cpu res)"
  define lo3 where "lo3 = logits_objs st' (vo_logits_output res)"
  define reqs' where "reqs' = reqs (batch st')"
  from run obtain req_index temps sel where
    len: "length acc = length (next_token_logits lo)" and
    ri: "req_index = map (\<lambda>a. a div D) acc" and
    tm: "index_select (temperatures (batch st)) req_index = Inr temps" and
    g: "gather_rows
          (map2 (\<lambda>row t. e_log_softmax env (map (\<lambda>x. e_fdiv env x t) row))
             (next_token_logits lo) temps) ids = Inr sel" and
    lo3: "next_token_logprobs lo3 = sel" and
    at: "attach_reqs lo3 ids (reqs (batch st)) ns 0 = Inr (reqs', pt)"
    unfolding add_logprob_values_def Let_def lo_def [symmetric] D_def [symmetric]
      acc_def [symmetric] ids_def [symmetric] ns_def [symmetric] lo3_def reqs'_def
    by (auto simp: bindE_Inr_iff py_assert_def split: if_splits)
  have lo': "logits_objs st' (vo_logits_output res) = lo3" and reqs': "reqs (batch st') = reqs'"
    by (simp_all add: lo3_def reqs'_def)
  note ts = index_select_spec [OF tm]
  note gs = gather_rows_spec [OF g]
  have lt: "length temps = length acc" using ts ri by simp
  have flat: "\<exists>T. py_index (temperatures (batch st)) (acc ! j div D) = Inr T
               \<and> py_index (e_log_softmax env (map (\<lambda>x. e_fdiv env x T) (next_token_logits lo ! j)))
                   (ids ! j) = Inr (sel ! j)"
    if j: "j < length ids" for j
  proof -
    from gs j have jr: "j < length (map2 (\<lambda>row t. e_log_softmax env (map (\<lambda>x. e_fdiv env x t) row))
             (next_token_logits lo) temps)"
      and v: "py_index (map2 (\<lambda>row t. e_log_softmax env (map (\<lambda>x. e_fdiv env x t) row))
             (next_token_logits lo) temps ! j) (ids ! j) = Inr (sel ! j)"
      by blast+
    from jr have jl: "j < length (next_token_logits lo)" and jt: "j < length temps"
      by simp_all
    from jt lt have ja: "j < length req_index" using ri by simp
    with ts have T: "py_index (temperatures (batch st)) (req_index ! j) = Inr (temps ! j)"
      by blast
    from ja ri have "req_index ! j = acc ! j div D" by simp
    with T have T': "py_index (temperatures (batch st)) (acc ! j div D) = Inr (temps ! j)"
      by simp
    from v jl jt have
      "py_index (e_log_softmax env (map (\<lambda>x. e_fdiv env x (temps ! j)) (next_token_logits lo ! j)))
         (ids ! j) = Inr (sel ! j)"
      by simp
    with T' show ?thesis by blast
  qed
  note as = attach_reqs_spec [OF at order_refl]
  have sums: "\<And>xs. map nat (map (\<lambda>accept. accept + 1) xs) = map (\<lambda>a. nat (a + 1)) xs"
    by simp
  have tk: "\<And>i. map nat (take i ns) = map (\<lambda>a. nat (a + 1)) (take i (accept_length_per_req_cpu res))"
    by (simp add: ns_def take_map)
  have nth: "\<And>i. i < length (reqs (batch st)) \<Longrightarrow> ns ! i = accept_length_per_req_cpu res ! i + 1"
    using as by (simp add: ns_def)
  show ?thesis
    unfolding lo' reqs' lo3 lo_def [symmetric] D_def [symmetric] acc_def [symmetric]
      ids_def [symmetric]
  proof (intro conjI)
    show "length sel = length ids" using gs by simp
    show "\<forall>j<length ids. \<exists>T. py_index (temperatures (batch st)) (acc ! j div D) = Inr T
               \<and> py_index (e_log_softmax env (map (\<lambda>x. e_fdiv env x T) (next_token_logits lo ! j)))
                   (ids ! j) = Inr (sel ! j)"
      using flat by blast
    show "length reqs' = length (reqs (batch st))" using as by simp
    show "length (accept_length_per_req_cpu res) = length (reqs (batch st))"
      using as by (simp add: ns_def)
    show "pt = int (sum_list (map (\<lambda>a. nat (a + 1)) (accept_length_per_req_cpu res)))"
      using as by (simp add: ns_def sums o_def)
    show "\<forall>i<length (reqs (batch st)).
       if req_return_logprob (reqs (batch st) ! i)
       then output_token_logprobs_val (reqs' ! i) =
            output_token_logprobs_val (reqs (batch st) ! i) @
            map ((!) sel)
             [sum_list (map (\<lambda>a. nat (a + 1)) (take i (accept_length_per_req_cpu res)))..<
              sum_list (map (\<lambda>a. nat (a + 1)) (take i (accept_length_per_req_cpu res))) +
              nat (accept_length_per_req_cpu res ! i + 1)] \<and>
            output_token_logprobs_idx (reqs' ! i) =
            output_token_logprobs_idx (reqs (batch st) ! i) @
            map ((!) ids)
             [sum_list (map (\<lambda>a. nat (a + 1)) (take i (accept_length_per_req_cpu res)))..<
              sum_list (map (\<lambda>a. nat (a + 1)) (take i (accept_length_per_req_cpu res))) +
              nat (accept_length_per_req_cpu res ! i + 1)]
       else reqs' ! i = reqs (batch st) ! i"
    proof (intro allI impI)
      fix i assume i: "i < length (reqs (batch st))"
      from as i have
        "if req_return_logprob (reqs (batch st) ! i)
            then output_token_logprobs_val (reqs' ! i) =
                   output_token_logprobs_val (reqs (batch st) ! i)
                     @ map (\<lambda>k. next_token_logprobs lo3 ! k)
                         [nat 0 + sum_list (map nat (take i ns))
                            ..< nat 0 + sum_list (map nat (take i ns)) + nat (ns ! i)]
               \<and> output_token_logprobs_idx (reqs' ! i) =
                   output_token_logprobs_idx (reqs (batch st) ! i)
                     @ map (\<lambda>k. ids ! k)
                         [nat 0 + sum_list (map nat (take i ns))
                            ..< nat 0 + sum_list (map nat (take i ns)) + nat (ns ! i)]
            else reqs' ! i = reqs (batch st) ! i"
        by blast
      then show "if req_return_logprob (reqs (batch st) ! i)
       then output_token_logprobs_val (reqs' ! i) =
            output_token_logprobs_val (reqs (batch st) ! i) @
            map ((!) sel)
             [sum_list (map (\<lambda>a. nat (a + 1)) (take i (accept_length_per_req_cpu res)))..<
              sum_list (map (\<lambda>a. nat (a + 1)) (take i (accept_length_per_req_cpu res))) +
              nat (accept_length_per_req_cpu res ! i + 1)] \<and>
            output_token_logprobs_idx (reqs' ! i) =
            output_token_logprobs_idx (reqs (batch st) ! i) @
            map ((!) ids)
             [sum_list (map (\<lambda>a. nat (a + 1)) (take i (accept_length_per_req_cpu res)))..<
              sum_list (map (\<lambda>a. nat (a + 1)) (take i (accept_length_per_req_cpu res))) +
              nat (accept_length_per_req_cpu res ! i + 1)]
       else reqs' ! i = reqs (batch st) ! i"
        by (simp only: tk nth [OF i] lo3 nat_0 add_0)
    qed
  qed
qed


lemmas logprob_defs =
  add_logprob_values_def gather_rows_def index_select_def py_index_def py_assert_def
  logprob_world_def logprob_result_def list_env_def decode_world_def decode_batch_def
  blank_verify_output_def blank_spec_info_def blank_req_def blank_logits_def
  upd_batch_def Let_def eval_nat_numeral

theorem add_logprob_values_attaches_witness:
  "\<exists>pt st'. add_logprob_values (list_env blank_logits blank_verify_output) logprob_result
              logprob_world = Inr (pt, st')
        \<and> pt = 3
        \<and> length (next_token_logprobs (logits_objs st' (vo_logits_output logprob_result))) = 3
        \<and> length (reqs (batch st')) = 2"
proof -
  have "\<exists>pt st'. add_logprob_values (list_env blank_logits blank_verify_output) logprob_result
              logprob_world = Inr (pt, st')"
    by (simp add: logprob_defs)
  then obtain pt st' where
    run: "add_logprob_values (list_env blank_logits blank_verify_output) logprob_result
            logprob_world = Inr (pt, st')"
    by blast
  have "pt = 3"
    and "length (next_token_logprobs (logits_objs st' (vo_logits_output logprob_result))) = 3"
    and "length (reqs (batch st')) = 2"
    using add_logprob_values_attaches [OF run]
    by (simp_all add: logprob_result_def logprob_world_def blank_verify_output_def
          decode_world_def decode_batch_def upd_batch_def)
  with run show ?thesis by blast
qed

text \<open>
  C7 as stated fails for a request that did not ask for logprobs: the second request
  below has \<open>accept_length = 0\<close>, so one token, and its output list gets no entry, while
  the first request (\<open>accept_length = 1\<close>) gets two.
\<close>

theorem add_logprob_values_no_logprob_request_counterexample:
  "accept_length_per_req_cpu logprob_result = [1, 0]
   \<and> map req_return_logprob (reqs (batch logprob_world)) = [True, False]
   \<and> map_sum id
       (\<lambda>(pt, st'). (pt, next_token_logprobs (logits_objs st' 0),
                      map output_token_logprobs_val (reqs (batch st'))))
       (add_logprob_values (list_env blank_logits blank_verify_output) logprob_result
          logprob_world)
     = Inr (3, [Num 2, Num 3, Num 4], [[Num 2, Num 3], []])"
  by (simp add: logprob_defs)

end
